theory Spec2Isabelle
  imports Complex_Main
begin

section \<open>Numbers of the runtime\<close>

text \<open>
  The program computes with JavaScript numbers, which are IEEE 754 doubles. Every finite
  double is a rational, so a number is a \<^typ>\<open>rat\<close>, and every arithmetic operation
  of the source is followed by the rounding of its exact result to a double. The rounding
  is a parameter \<open>rnd\<close> of the functions that compute; what the theorems need of it is
  \<open>ieee_double\<close>: the error of rounding to nearest (half a unit in the last place, which
  is at most \<open>|x| / 2^53\<close> for a normal and \<open>1 / 2^1075\<close> for a subnormal result), and
  that a number with a 53-bit numerator over a power of two down to \<open>2^1074\<close> is a double
  and so is not changed.
\<close>

type_synonym rounding = "rat \<Rightarrow> rat"

definition ieee_double :: "rounding \<Rightarrow> bool" where
  "ieee_double rnd \<longleftrightarrow>
     (\<forall>x. \<bar>x\<bar> \<le> 2 ^ 1023 \<longrightarrow> \<bar>rnd x - x\<bar> \<le> \<bar>x\<bar> / 2 ^ 53 + 1 / 2 ^ 1075) \<and>
     (\<forall>(m::int) (k::nat). \<bar>m\<bar> < 2 ^ 53 \<and> k \<le> 1074 \<longrightarrow>
        rnd (of_int m / 2 ^ k) = of_int m / 2 ^ k)"

section \<open>Image Compositor: \<open>processFinalImage\<close>\<close>

text \<open>
  A thrown value, by its \<open>message\<close>. A value thrown without a message reads as one with the
  empty message, which \<open>e.message || ...\<close> treats alike.
\<close>

datatype thrown = Error (message: string)

text \<open>
  The decoded source image (\<open>img.width\<close>, \<open>img.height\<close>), the destination rectangle
  handed to \<open>drawImage\<close>, and the canvas: its two dimensions as the canvas reports them,
  the fill colour, and what was drawn on it.
\<close>

record image =
  img_width :: nat
  img_height :: nat

record placement =
  centerShift_x :: rat
  centerShift_y :: rat
  dWidth :: rat
  dHeight :: rat

record canvas =
  canvas_width :: nat
  canvas_height :: nat
  fillStyle :: string
  drawn :: "(string \<times> placement) option"

text \<open>
  \<open>canvas.width = v\<close> and \<open>canvas.height = v\<close>: both attributes are of the IDL type
  \<open>unsigned long\<close>, so the number assigned is truncated towards zero and taken modulo
  \<open>2^32\<close>; the attribute then takes it when it is at most \<open>2147483647\<close> and its default
  (300 for the width, 150 for the height) otherwise.
\<close>

definition unsigned_long :: "rat \<Rightarrow> nat" where
  "unsigned_long v = nat ((if 0 \<le> v then \<lfloor>v\<rfloor> else - \<lfloor>- v\<rfloor>) mod 2 ^ 32)"

definition set_dimension :: "nat \<Rightarrow> rat \<Rightarrow> nat" where
  "set_dimension dflt v =
     (let n = unsigned_long v in if n \<le> 2147483647 then n else dflt)"

text \<open>\<open>const targetHeight = (targetWidth / 16) * 9\<close>: two operations, each rounded.\<close>

definition targetHeight :: "rounding \<Rightarrow> nat \<Rightarrow> rat" where
  "targetHeight rnd targetWidth = rnd (rnd (of_nat targetWidth / 16) * 9)"

text \<open>The canvas after lines 41 to 52: created, sized and filled with the background.\<close>

definition new_canvas :: "rounding \<Rightarrow> string \<Rightarrow> nat \<Rightarrow> canvas" where
  "new_canvas rnd backgroundColor targetWidth =
     \<lparr>canvas_width = set_dimension 300 (of_nat targetWidth),
      canvas_height = set_dimension 150 (targetHeight rnd targetWidth),
      fillStyle = backgroundColor,
      drawn = None\<rparr>"

text \<open>
  The body of \<open>img.onload\<close>. \<open>drawImage\<close> paints nothing when the source rectangle has a
  zero side, which is also where the two quotients of the source are not finite; the
  placement is then \<open>None\<close>.
\<close>

definition contain :: "rounding \<Rightarrow> canvas \<Rightarrow> image \<Rightarrow> placement option" where
  "contain rnd c img =
     (if img_width img = 0 \<or> img_height img = 0 then None
      else
        let hRatio = rnd (of_nat (canvas_width c) / of_nat (img_width img));
            vRatio = rnd (of_nat (canvas_height c) / of_nat (img_height img));
            ratio = min hRatio vRatio
        in Some
          \<lparr>centerShift_x = rnd (rnd (of_nat (canvas_width c) - rnd (of_nat (img_width img) * ratio)) / 2),
           centerShift_y = rnd (rnd (of_nat (canvas_height c) - rnd (of_nat (img_height img) * ratio)) / 2),
           dWidth = rnd (of_nat (img_width img) * ratio),
           dHeight = rnd (of_nat (img_height img) * ratio)\<rparr>)"

text \<open>
  What the browser gives the compositor: whether a 2D context can be had, what loading a
  data URL into an \<open>Image\<close> yields (\<open>None\<close> when \<open>onerror\<close> fires), the arithmetic, and
  the PNG encoding of a canvas.
\<close>

record browser =
  getContext_2d :: bool
  image_load :: "string \<Rightarrow> image option"
  rounding :: rounding
  toDataURL :: "canvas \<Rightarrow> string"

definition composite :: "('a browser_scheme) \<Rightarrow> string \<Rightarrow> string \<Rightarrow> nat \<Rightarrow> thrown + canvas" where
  "composite b imageDataUrl backgroundColor targetWidth =
     (let c = new_canvas (rounding b) backgroundColor targetWidth in
      if \<not> getContext_2d b then Inl (Error ''Could not get canvas context'')
      else case image_load b imageDataUrl of
        None \<Rightarrow> Inl (Error ''Failed to load image for processing.'')
      | Some img \<Rightarrow>
          Inr (c\<lparr>drawn := map_option (\<lambda>p. (imageDataUrl, p)) (contain (rounding b) c img)\<rparr>))"

definition processFinalImage ::
  "('a browser_scheme) \<Rightarrow> string \<Rightarrow> string \<Rightarrow> nat \<Rightarrow> thrown + string" where
  "processFinalImage b imageDataUrl backgroundColor targetWidth =
     map_sum id (toDataURL b) (composite b imageDataUrl backgroundColor targetWidth)"

text \<open>The defaults of the two optional parameters.\<close>

definition processFinalImage_default :: "('a browser_scheme) \<Rightarrow> string \<Rightarrow> thrown + string" where
  "processFinalImage_default b imageDataUrl = processFinalImage b imageDataUrl ''#FFFFFF'' 1920"

section \<open>Values, strings and promises of the runtime\<close>

text \<open>
  A string is a list of code units below 256. A JavaScript value, as far as the program meets
  one: \<open>undefined\<close>, \<open>null\<close>, and what \<open>JSON.parse\<close> or an object literal builds. An
  object is the list of its own properties.
\<close>

datatype js =
    JUndefined
  | JNull
  | JBool bool
  | JNum rat
  | JStr string
  | JArr "js list"
  | JObj "(string \<times> js) list"

text \<open>A value used as a condition.\<close>

fun truthy :: "js \<Rightarrow> bool" where
  "truthy JUndefined = False"
| "truthy JNull = False"
| "truthy (JBool b) = b"
| "truthy (JNum n) = (n \<noteq> 0)"
| "truthy (JStr s) = (s \<noteq> [])"
| "truthy (JArr xs) = True"
| "truthy (JObj kvs) = True"

text \<open>
  \<open>v[key]\<close> and \<open>v.key\<close> for a key that no prototype defines: a \<open>TypeError\<close> on \<open>undefined\<close>
  and \<open>null\<close>, the property of an object, \<open>undefined\<close> otherwise. The text of the
  \<open>TypeError\<close> is the engine's and is a parameter.
\<close>

fun property :: "string \<Rightarrow> js \<Rightarrow> string \<Rightarrow> thrown + js" where
  "property typeError JUndefined key = Inl (Error typeError)"
| "property typeError JNull key = Inl (Error typeError)"
| "property typeError (JObj kvs) key =
     (case map_of kvs key of None \<Rightarrow> Inr JUndefined | Some v \<Rightarrow> Inr v)"
| "property typeError v key = Inr JUndefined"

text \<open>\<open>Object.keys(o)\<close> of an object literal.\<close>

definition Object_keys :: "(string \<times> js) list \<Rightarrow> string list" where
  "Object_keys obj = map fst obj"

text \<open>\<open>`${v}`\<close> for a string that may be \<open>undefined\<close>.\<close>

definition interpolate :: "string option \<Rightarrow> string" where
  "interpolate v = (case v of None \<Rightarrow> ''undefined'' | Some s \<Rightarrow> s)"

text \<open>
  \<open>s.replace(pattern, replacement)\<close> with a string pattern: the first occurrence of the
  pattern is replaced, and in the replacement \<open>$$\<close> stands for a dollar, \<open>$&\<close> for the
  matched text, \<open>$`\<close> for what precedes the match and \<open>$'\<close> for what follows it.
\<close>

fun split_first :: "string \<Rightarrow> string \<Rightarrow> (string \<times> string) option" where
  "split_first pat [] = (if pat = [] then Some ([], []) else None)"
| "split_first pat (c # s) =
     (if take (length pat) (c # s) = pat then Some ([], drop (length pat) (c # s))
      else map_option (\<lambda>(preceding, following). (c # preceding, following)) (split_first pat s))"

fun getSubstitution :: "string \<Rightarrow> string \<Rightarrow> string \<Rightarrow> string \<Rightarrow> string" where
  "getSubstitution matched preceding following [] = []"
| "getSubstitution matched preceding following [c] = [c]"
| "getSubstitution matched preceding following (c # d # r) =
     (if c = CHR ''$'' \<and> d = CHR ''$'' then CHR ''$'' # getSubstitution matched preceding following r
      else if c = CHR ''$'' \<and> d = CHR ''&'' then matched @ getSubstitution matched preceding following r
      else if c = CHR ''$'' \<and> d = CHR 0x60 then preceding @ getSubstitution matched preceding following r
      else if c = CHR ''$'' \<and> d = CHR 0x27 then following @ getSubstitution matched preceding following r
      else c # getSubstitution matched preceding following (d # r))"

definition replace :: "string \<Rightarrow> string \<Rightarrow> string \<Rightarrow> string" where
  "replace s pat replacement =
     (case split_first pat s of
        None \<Rightarrow> s
      | Some (preceding, following) \<Rightarrow> preceding @ getSubstitution pat preceding following replacement @ following)"

text \<open>
  \<open>s.trim()\<close> used as a condition: true when a character of \<open>s\<close> is no white space. Among
  the code units below 256, \<open>trim\<close> strips the tab, the line feed, the vertical tab, the
  form feed, the carriage return, the space and the no-break space.
\<close>

definition white_space :: "char \<Rightarrow> bool" where
  "white_space c \<longleftrightarrow>
     c \<in> set [CHR 0x09, CHR 0x0A, CHR 0x0B, CHR 0x0C, CHR 0x0D, CHR '' '', CHR 0xA0]"

definition trim_truthy :: "string \<Rightarrow> bool" where
  "trim_truthy s \<longleftrightarrow> (\<exists>c \<in> set s. \<not> white_space c)"

text \<open>
  \<open>url.match(/^data:(.+);base64,(.+)$/)\<close>: the two groups, or \<open>None\<close> for \<open>null\<close>. A dot
  matches no line terminator (below 256: the line feed and the carriage return), and the
  first group is greedy, so the split is at the last \<open>;base64,\<close> that leaves a character
  on each side.
\<close>

definition line_terminator :: "char \<Rightarrow> bool" where
  "line_terminator c \<longleftrightarrow> c = CHR 0x0A \<or> c = CHR 0x0D"

definition match_data_url :: "string \<Rightarrow> (string \<times> string) option" where
  "match_data_url url =
     (if take 5 url \<noteq> ''data:'' then None
      else
        let r = drop 5 url;
            found = filter (\<lambda>i. take 8 (drop i r) = '';base64,'') [1 ..< length r - 8]
        in if (\<exists>c \<in> set r. line_terminator c) \<or> found = [] then None
           else Some (take (last found) r, drop (last found + 8) r))"

text \<open>
  A promise is read by what becomes of it: \<open>None\<close> when it never settles, else the time
  in milliseconds after which it settles and how.
\<close>

datatype 'a settled = Fulfilled 'a | Rejected thrown

type_synonym 'a promise = "(nat \<times> 'a settled) option"

definition await :: "'a promise \<Rightarrow> 'a settled option" where
  "await p = map_option snd p"

section \<open>The generation service and the session\<close>

text \<open>
  The parts of a request and of a response of \<open>generateContent\<close>. Every field of a
  response may be missing, which is \<open>None\<close>.
\<close>

record Blob =
  mimeType :: "string option"
  data :: "string option"

text \<open>The field \<open>part_text\<close> is the \<open>text\<close> of a part.\<close>

record Part =
  part_text :: "string option"
  inlineData :: "Blob option"

record Content =
  parts :: "Part list option"

record Candidate =
  content :: "Content option"

record GenerateContentResponse =
  candidates :: "Candidate list option"

text \<open>\<open>response.candidates?.[0]?.content?.parts\<close>\<close>

definition response_parts :: "GenerateContentResponse \<Rightarrow> Part list option" where
  "response_parts response =
     (case candidates response of
        None \<Rightarrow> None
      | Some [] \<Rightarrow> None
      | Some (c # cs) \<Rightarrow> (case content c of None \<Rightarrow> None | Some ct \<Rightarrow> parts ct))"

text \<open>The two predicates handed to \<open>parts.find\<close>: \<open>part.text\<close> and \<open>part.inlineData\<close> as conditions.\<close>

definition has_text :: "Part \<Rightarrow> bool" where
  "has_text part = (case part_text part of None \<Rightarrow> False | Some t \<Rightarrow> t \<noteq> [])"

definition has_inlineData :: "Part \<Rightarrow> bool" where
  "has_inlineData part = (inlineData part \<noteq> None)"

text \<open>\<open>`data:${mimeType};base64,${data}`\<close>\<close>

definition data_url :: "Blob \<Rightarrow> string" where
  "data_url blob = ''data:'' @ interpolate (mimeType blob) @ '';base64,'' @ interpolate (data blob)"

record File =
  file_name :: string
  file_type :: string

datatype truthLockStatus = Verifying | Verified | Modified

record Variant =
  variant_id :: string
  sourceGraphicUrl :: string
  displayImageUrl :: string
  truthLockStatus :: truthLockStatus

datatype StylePreset = Executive | Workshop | Investor

fun preset_string :: "StylePreset \<Rightarrow> string" where
  "preset_string Executive = ''Executive''"
| "preset_string Workshop = ''Workshop''"
| "preset_string Investor = ''Investor''"

text \<open>The state of the \<open>App\<close> component, one field for each \<open>useState\<close>.\<close>

record session =
  originalImage :: "File option"
  stylePreset :: StylePreset
  variants :: "Variant list"
  isLoading :: bool
  isTweaking :: bool
  tweakRequest :: string
  error :: "string option"
  compareOn :: bool

definition initial :: session where
  "initial =
     \<lparr>originalImage = None, stylePreset = Workshop, variants = [], isLoading = False,
      isTweaking = False, tweakRequest = [], error = None, compareOn = False\<rparr>"

text \<open>
  A call of a state setter. \<open>TweakVariants\<close> is the one functional update of the program,
  the \<open>setVariants(currentVariants => currentVariants.map(...))\<close> of the edit flow, which
  reads the variants of the moment it is applied.
\<close>

datatype update =
    SetOriginalImage File
  | SetStylePreset StylePreset
  | SetVariants "Variant list"
  | TweakVariants string string string
  | SetIsLoading bool
  | SetIsTweaking bool
  | SetTweakRequest string
  | SetError "string option"
  | SetCompareOn bool
  | ToggleCompareOn

fun apply_update :: "update \<Rightarrow> session \<Rightarrow> session" where
  "apply_update (SetOriginalImage f) s = s\<lparr>originalImage := Some f\<rparr>"
| "apply_update (SetStylePreset p) s = s\<lparr>stylePreset := p\<rparr>"
| "apply_update (SetVariants vs) s = s\<lparr>variants := vs\<rparr>"
| "apply_update (TweakVariants variantId newSourceGraphicUrl newDisplayImageUrl) s =
     s\<lparr>variants :=
         map (\<lambda>v. if variant_id v = variantId
                   then v\<lparr>sourceGraphicUrl := newSourceGraphicUrl,
                          displayImageUrl := newDisplayImageUrl,
                          truthLockStatus := Modified\<rparr>
                   else v)
           (variants s)\<rparr>"
| "apply_update (SetIsLoading b) s = s\<lparr>isLoading := b\<rparr>"
| "apply_update (SetIsTweaking b) s = s\<lparr>isTweaking := b\<rparr>"
| "apply_update (SetTweakRequest t) s = s\<lparr>tweakRequest := t\<rparr>"
| "apply_update (SetError e) s = s\<lparr>error := e\<rparr>"
| "apply_update (SetCompareOn b) s = s\<lparr>compareOn := b\<rparr>"
| "apply_update ToggleCompareOn s = s\<lparr>compareOn := \<not> compareOn s\<rparr>"

text \<open>The updates of a flow applied in their order, and every state passed through.\<close>

definition apply_updates :: "update list \<Rightarrow> session \<Rightarrow> session" where
  "apply_updates us s = foldl (\<lambda>s u. apply_update u s) s us"

fun states :: "update list \<Rightarrow> session \<Rightarrow> session list" where
  "states [] s = [s]"
| "states (u # us) s = s # states us (apply_update u s)"

text \<open>
  What the program asks of the outside during a flow: a run of \<open>runOcrOnImage\<close> on a file,
  a \<open>generateContent\<close> request with its model and parts, and a download.
\<close>

datatype call =
    RunOcrOnImage File
  | GenerateContent string "Part list"
  | Download string string

text \<open>
  The outside of one flow: the browser, the fixture table \<open>DEMO_DATA\<close> (the listing of
  \<open>demo-data.ts\<close> breaks off inside its third entry, so the table is a parameter), and what
  each call of the flow comes to:
  \<^item> \<open>new_GoogleGenAI\<close>: what the constructor of the client throws, if it throws;
  \<^item> \<open>fileToBase64\<close>: the base64 text of a file, or what the reader rejects with;
  \<^item> \<open>ocr_generateContent\<close>: the request of the extraction, fulfilled with \<open>response.text\<close>;
  \<^item> \<open>JSON_parse_trimmed\<close>: \<open>JSON.parse(t.trim())\<close>, \<open>None\<close> when it throws;
  \<^item> \<open>typeError\<close>: the message of the engine's \<open>TypeError\<close> for a property of \<open>null\<close> or
    \<open>undefined\<close>;
  \<^item> \<open>JSON_stringify\<close>: the text that \<open>JSON.stringify(v, null, 2)\<close> gives to \<open>replace\<close>;
  \<^item> \<open>generateContent\<close> and \<open>tweak_generateContent\<close>: the request of the generation flow and of
    the edit flow;
  \<^item> \<open>randomUUID\<close>: the identifier that \<open>crypto.randomUUID()\<close> returns;
  \<^item> \<open>link_click\<close>: what the download through a temporary link throws, if it throws.
\<close>

record world = browser +
  DEMO_DATA :: "(string \<times> js) list"
  new_GoogleGenAI :: "thrown option"
  fileToBase64 :: "File \<Rightarrow> thrown + string"
  ocr_generateContent :: "string option promise"
  JSON_parse_trimmed :: "string \<Rightarrow> js option"
  typeError :: string
  JSON_stringify :: "js \<Rightarrow> string"
  generateContent :: "GenerateContentResponse promise"
  tweak_generateContent :: "GenerateContentResponse promise"
  randomUUID :: string
  link_click :: "thrown option"

section \<open>The prompts\<close>

text \<open>The three prompt texts of \<open>index.tsx\<close>, character by character.\<close>

definition MASTER_RECONSTRUCT_PROMPT :: string where
  "MASTER_RECONSTRUCT_PROMPT =
     ''\<newline>'' @
     ''  Persona: You are a world-class information designer and visual artist at a top-tier consulting firm.\<newline>'' @
     ''\<newline>'' @
     ''  Task: Your task is to create a single, stunning, and clear visual representation of the provided JSON data. Do not show the JSON data itself; visualize the information it contains.\<newline>'' @
     ''\<newline>'' @
     ''  Design System Rules:\<newline>'' @
     ''  -   Adhere to a strict 8pt grid for all spacing and alignment.\<newline>'' @
     ''  -   Use a professional and clean sans-serif font like \"Inter\".\<newline>'' @
     ''  -   Typographic Scale: Headline (32px, Bold), Label (14px, Medium), Caption (12px, Regular).\<newline>'' @
     ''  -   Use high-quality, single-color, line-art icons (like Material Symbols) to represent concepts where appropriate.\<newline>'' @
     ''\<newline>'' @
     ''  Data Visualization Best Practices:\<newline>'' @
     ''  -   Maximize the data-ink ratio. Remove all unnecessary chart junk.\<newline>'' @
     ''  -   Use color strategically to highlight key insights, but maintain a professional and clean aesthetic.\<newline>'' @
     ''\<newline>'' @
     ''  Critical Constraints:\<newline>'' @
     ''  -   Render the final graphic on a pure white (#FFFFFF) background. Do not draw or simulate transparency (no gray/white checkerboards). Do not add any drop shadows or watermarks.\<newline>'' @
     ''  -   You MUST propose a new, concise headline for the visual as a separate piece of text. The headline MUST NOT be rendered on the image itself.\<newline>'' @
     ''\<newline>'' @
     ''  Context:\<newline>'' @
     ''  -   Style Preset: {{stylePreset}} (Use this to guide your color palette and overall aesthetic: 'Executive' is formal and minimalist, 'Workshop' is collaborative and colorful, 'Investor' is data-dense and impactful).\<newline>'' @
     ''  -   JSON Data to Visualize:\<newline>'' @
     ''      ```json\<newline>'' @
     ''      {{jsonData}}\<newline>'' @
     ''      ```\<newline>'' @
     ''\<newline>'' @
     ''  Format:\<newline>'' @
     ''  -   Your response MUST contain two distinct parts:\<newline>'' @
     ''      1. A single line of text for the proposed title.\<newline>'' @
     ''      2. The generated image file.\<newline>''"

definition ocrPrompt :: string where
  "ocrPrompt =
     ''Analyze the provided slide image. Deconstruct it into a structured JSON object. The JSON should capture the core informational content, not just the text. Infer the structure (e.g., list, hierarchy, table). For charts, extract data points, labels, and the chart type.\<newline>'' @
     ''\<newline>'' @
     ''      Example for a simple list:\<newline>'' @
     ''      { \"type\": \"list\", \"title\": \"Key Takeaways\", \"items\": [\"First point\", \"Second point\"] }\<newline>'' @
     ''\<newline>'' @
     ''      Example for a bar chart:\<newline>'' @
     ''      { \"type\": \"bar_chart\", \"title\": \"Q3 Performance\", \"data\": [{\"label\": \"Product A\", \"value\": 75}, {\"label\": \"Product B\", \"value\": 50}] }\<newline>'' @
     ''\<newline>'' @
     ''      Return ONLY the raw JSON object.''"

definition tweakPrompt :: string where
  "tweakPrompt =
     ''\<newline>'' @
     ''          You are an AI design assistant specializing in presentation slides.\<newline>'' @
     ''          A user wants to apply a specific change to the provided image.\<newline>'' @
     ''          Analyze the user's request and modify the image accordingly.\<newline>'' @
     ''\<newline>'' @
     ''          Critical Constraints:\<newline>'' @
     ''          - Your ONLY output must be the newly modified image file.\<newline>'' @
     ''          - The output image MUST be rendered on a pure white (#FFFFFF) background. Do not draw or simulate transparency (no gray/white checkerboards). Do not add any drop shadows or watermarks.\<newline>'' @
     ''          - Do not output any text, commentary, or markdown.\<newline>'' @
     ''        ''"

text \<open>
  The text of \<open>MASTER_RECONSTRUCT_PROMPT\<close> up to the marker of the style, from there up to
  the marker of the data, and after it.
\<close>

definition PROMPT_UNTIL_STYLE :: string where
  "PROMPT_UNTIL_STYLE =
     ''\<newline>'' @
     ''  Persona: You are a world-class information designer and visual artist at a top-tier consulting firm.\<newline>'' @
     ''\<newline>'' @
     ''  Task: Your task is to create a single, stunning, and clear visual representation of the provided JSON data. Do not show the JSON data itself; visualize the information it contains.\<newline>'' @
     ''\<newline>'' @
     ''  Design System Rules:\<newline>'' @
     ''  -   Adhere to a strict 8pt grid for all spacing and alignment.\<newline>'' @
     ''  -   Use a professional and clean sans-serif font like \"Inter\".\<newline>'' @
     ''  -   Typographic Scale: Headline (32px, Bold), Label (14px, Medium), Caption (12px, Regular).\<newline>'' @
     ''  -   Use high-quality, single-color, line-art icons (like Material Symbols) to represent concepts where appropriate.\<newline>'' @
     ''\<newline>'' @
     ''  Data Visualization Best Practices:\<newline>'' @
     ''  -   Maximize the data-ink ratio. Remove all unnecessary chart junk.\<newline>'' @
     ''  -   Use color strategically to highlight key insights, but maintain a professional and clean aesthetic.\<newline>'' @
     ''\<newline>'' @
     ''  Critical Constraints:\<newline>'' @
     ''  -   Render the final graphic on a pure white (#FFFFFF) background. Do not draw or simulate transparency (no gray/white checkerboards). Do not add any drop shadows or watermarks.\<newline>'' @
     ''  -   You MUST propose a new, concise headline for the visual as a separate piece of text. The headline MUST NOT be rendered on the image itself.\<newline>'' @
     ''\<newline>'' @
     ''  Context:\<newline>'' @
     ''  -   Style Preset: ''"

definition PROMPT_UNTIL_DATA :: string where
  "PROMPT_UNTIL_DATA =
     '' (Use this to guide your color palette and overall aesthetic: 'Executive' is formal and minimalist, 'Workshop' is collaborative and colorful, 'Investor' is data-dense and impactful).\<newline>'' @
     ''  -   JSON Data to Visualize:\<newline>'' @
     ''      ```json\<newline>'' @
     ''      ''"

definition PROMPT_AFTER_DATA :: string where
  "PROMPT_AFTER_DATA =
     ''\<newline>'' @
     ''      ```\<newline>'' @
     ''\<newline>'' @
     ''  Format:\<newline>'' @
     ''  -   Your response MUST contain two distinct parts:\<newline>'' @
     ''      1. A single line of text for the proposed title.\<newline>'' @
     ''      2. The generated image file.\<newline>''"

section \<open>Orchestrator\<close>

text \<open>
  A flow is an asynchronous handler of \<open>App\<close>, run on the session it was rendered with. It
  yields the state setters it calls, in order, the calls it makes of the outside, and
  whether it comes to its end: a flow that awaits a promise which never settles stops
  there, with the updates and calls made so far.
\<close>

record flow =
  updates :: "update list"
  calls :: "call list"
  finished :: bool

subsection \<open>\<open>runOcrOnImage\<close>\<close>

definition ocr_failure :: js where
  "ocr_failure =
     JObj [(''error'', JStr ''OCR failed to produce valid JSON.''),
           (''extractedContent'', JArr []),
           (''notes'', JStr ''This data was extracted via a failed OCR attempt. Reconstruct the most logical visual representation of an empty slide.'')]"

definition ocr_request :: "File \<Rightarrow> string \<Rightarrow> Part list" where
  "ocr_request imageFile base64ImageData =
     [\<lparr>part_text = None,
       inlineData = Some \<lparr>mimeType = Some (file_type imageFile), data = Some base64ImageData\<rparr>\<rparr>,
      \<lparr>part_text = Some ocrPrompt, inlineData = None\<rparr>]"

text \<open>
  Everything that throws inside the \<open>try\<close> (the constructor of the client, the reading
  of the file, the request, \<open>response.text.trim()\<close> on a response without text,
  \<open>JSON.parse\<close>) is caught and gives the failure object. The result is \<open>None\<close> when the
  request never settles.
\<close>

definition runOcrOnImage :: "'a world_scheme \<Rightarrow> File \<Rightarrow> call list \<times> js option" where
  "runOcrOnImage w imageFile =
     (case new_GoogleGenAI w of
        Some e \<Rightarrow> ([], Some ocr_failure)
      | None \<Rightarrow>
          (case fileToBase64 w imageFile of
             Inl e \<Rightarrow> ([], Some ocr_failure)
           | Inr base64ImageData \<Rightarrow>
               ([GenerateContent ''gemini-2.5-flash'' (ocr_request imageFile base64ImageData)],
                (case await (ocr_generateContent w) of
                   None \<Rightarrow> None
                 | Some (Rejected e) \<Rightarrow> Some ocr_failure
                 | Some (Fulfilled None) \<Rightarrow> Some ocr_failure
                 | Some (Fulfilled (Some t)) \<Rightarrow>
                     (case JSON_parse_trimmed w t of
                        None \<Rightarrow> Some ocr_failure
                      | Some parsed \<Rightarrow> Some parsed)))))"

subsection \<open>\<open>handleGenerateVariants\<close>\<close>

definition isDemoFile :: "'a world_scheme \<Rightarrow> File \<Rightarrow> bool" where
  "isDemoFile w f \<longleftrightarrow> file_name f \<in> set (Object_keys (DEMO_DATA w))"

text \<open>
  Lines 236 to 248: the structured description, from the fixture table or from
  \<open>runOcrOnImage\<close>, with the calls made; \<open>None\<close> when the extraction never returns.
\<close>

definition structuredJson :: "'a world_scheme \<Rightarrow> File \<Rightarrow> call list \<times> (thrown + js) option" where
  "structuredJson w f =
     (if isDemoFile w f
      then ([], Some (property (typeError w) (JObj (DEMO_DATA w)) (file_name f)))
      else
        (case runOcrOnImage w f of
           (cs, None) \<Rightarrow> (RunOcrOnImage f # cs, None)
         | (cs, Some extracted) \<Rightarrow>
             (RunOcrOnImage f # cs,
              Some (case property (typeError w) extracted ''error'' of
                      Inl e \<Rightarrow> Inl e
                    | Inr marker \<Rightarrow>
                        if truthy marker
                        then Inl (Error ''Smart OCR failed to extract structured content from the slide. Please try a different image.'')
                        else Inr extracted))))"

definition finalPrompt :: "'a world_scheme \<Rightarrow> StylePreset \<Rightarrow> js \<Rightarrow> string" where
  "finalPrompt w preset structured =
     replace (replace MASTER_RECONSTRUCT_PROMPT ''{{stylePreset}}'' (preset_string preset))
       ''{{jsonData}}'' (JSON_stringify w structured)"

definition GENERATION_TIMEOUT_MS :: nat where
  "GENERATION_TIMEOUT_MS = 60000"

text \<open>
  \<open>Promise.race([generationPromise, timeoutPromise])\<close>: the timer rejects after
  \<open>GENERATION_TIMEOUT_MS\<close>, and the promise that settles first decides. A timer fires no
  sooner than its delay and is set after the request was sent, so a request that settles
  at the very delay is taken to settle first.
\<close>

definition Promise_race :: "'a promise \<Rightarrow> 'a settled" where
  "Promise_race generationPromise =
     (case generationPromise of
        None \<Rightarrow> Rejected (Error ''Generation timed out. The request took too long, please try again.'')
      | Some (t, r) \<Rightarrow>
          if t \<le> GENERATION_TIMEOUT_MS then r
          else Rejected (Error ''Generation timed out. The request took too long, please try again.''))"

text \<open>Lines 272 to 287: the title part and the image of the response.\<close>

definition title_and_image :: "string \<Rightarrow> GenerateContentResponse \<Rightarrow> thrown + (Part \<times> Blob)" where
  "title_and_image typeErr response =
     (case response_parts response of
        None \<Rightarrow> Inl (Error ''Sorry, the model didn't return both a title and an image. Please try again.'')
      | Some ps \<Rightarrow>
          if length ps < 2
          then Inl (Error ''Sorry, the model didn't return both a title and an image. Please try again.'')
          else
            (case (find has_text ps, find has_inlineData ps) of
               (Some textPartResponse, Some imagePartResponse) \<Rightarrow>
                 (case inlineData imagePartResponse of
                    None \<Rightarrow> Inl (Error typeErr)
                  | Some blob \<Rightarrow> Inr (textPartResponse, blob))
             | _ \<Rightarrow> Inl (Error ''The model response was missing either the text or image part.'')))"

text \<open>The body of the \<open>try\<close>: the calls made, and the variant built or what was thrown.\<close>

definition generate :: "'a world_scheme \<Rightarrow> session \<Rightarrow> File \<Rightarrow> call list \<times> (thrown + Variant) option" where
  "generate w s f =
     (case structuredJson w f of
        (cs, None) \<Rightarrow> (cs, None)
      | (cs, Some (Inl e)) \<Rightarrow> (cs, Some (Inl e))
      | (cs, Some (Inr structured)) \<Rightarrow>
          (case new_GoogleGenAI w of
             Some e \<Rightarrow> (cs, Some (Inl e))
           | None \<Rightarrow>
               (cs @ [GenerateContent ''gemini-2.5-flash-image-preview''
                        [\<lparr>part_text = Some (finalPrompt w (stylePreset s) structured), inlineData = None\<rparr>]],
                Some (case Promise_race (generateContent w) of
                        Rejected e \<Rightarrow> Inl e
                      | Fulfilled response \<Rightarrow>
                          (case title_and_image (typeError w) response of
                             Inl e \<Rightarrow> Inl e
                           | Inr (textPartResponse, blob) \<Rightarrow>
                               (case processFinalImage_default w (data_url blob) of
                                  Inl e \<Rightarrow> Inl e
                                | Inr processed \<Rightarrow>
                                    Inr \<lparr>variant_id = randomUUID w,
                                         sourceGraphicUrl = data_url blob,
                                         displayImageUrl = processed,
                                         truthLockStatus = Verified\<rparr>))))))"

definition handleGenerateVariants :: "'a world_scheme \<Rightarrow> session \<Rightarrow> flow" where
  "handleGenerateVariants w s =
     (case originalImage s of
        None \<Rightarrow>
          \<lparr>updates = [SetError (Some ''Please upload an image first.'')], calls = [], finished = True\<rparr>
      | Some f \<Rightarrow>
          (case generate w s f of
             (cs, None) \<Rightarrow>
               \<lparr>updates = [SetIsLoading True, SetCompareOn False, SetError None, SetVariants []],
                calls = cs, finished = False\<rparr>
           | (cs, Some (Inl e)) \<Rightarrow>
               \<lparr>updates = [SetIsLoading True, SetCompareOn False, SetError None, SetVariants [],
                           SetError (Some (if message e \<noteq> [] then message e
                                           else ''An error occurred while generating variants. Please check the console.'')),
                           SetIsLoading False],
                calls = cs, finished = True\<rparr>
           | (cs, Some (Inr finalVariant)) \<Rightarrow>
               \<lparr>updates = [SetIsLoading True, SetCompareOn False, SetError None, SetVariants [],
                           SetVariants [finalVariant],
                           SetIsLoading False],
                calls = cs, finished = True\<rparr>))"

subsection \<open>\<open>handleApplyTweak\<close>\<close>

definition tweak_request :: "string \<Rightarrow> string \<Rightarrow> string \<Rightarrow> Part list" where
  "tweak_request mime base64ImageData tweakText =
     [\<lparr>part_text = Some tweakPrompt, inlineData = None\<rparr>,
      \<lparr>part_text = None, inlineData = Some \<lparr>mimeType = Some mime, data = Some base64ImageData\<rparr>\<rparr>,
      \<lparr>part_text = Some tweakText, inlineData = None\<rparr>]"

text \<open>\<open>response.candidates?.[0]?.content?.parts?.find(p => p.inlineData)\<close>\<close>

definition response_imagePart :: "GenerateContentResponse \<Rightarrow> Part option" where
  "response_imagePart response =
     (case response_parts response of None \<Rightarrow> None | Some ps \<Rightarrow> find has_inlineData ps)"

text \<open>
  The body of the \<open>try\<close>: the calls made, and the new raw and display image or what was
  thrown; \<open>None\<close> when the request never settles.
\<close>

definition tweak :: "'a world_scheme \<Rightarrow> Variant \<Rightarrow> string \<Rightarrow> call list \<times> (thrown + string \<times> string) option" where
  "tweak w variantToTweak tweakText =
     (case new_GoogleGenAI w of
        Some e \<Rightarrow> ([], Some (Inl e))
      | None \<Rightarrow>
          (case match_data_url (sourceGraphicUrl variantToTweak) of
             None \<Rightarrow> ([], Some (Inl (Error ''Invalid data URL format for the variant image.'')))
           | Some (mime, base64ImageData) \<Rightarrow>
               ([GenerateContent ''gemini-2.5-flash-image-preview''
                   (tweak_request mime base64ImageData tweakText)],
                (case await (tweak_generateContent w) of
                   None \<Rightarrow> None
                 | Some (Rejected e) \<Rightarrow> Some (Inl e)
                 | Some (Fulfilled response) \<Rightarrow>
                     Some (case response_imagePart response of
                             None \<Rightarrow> Inl (Error ''The model did not return a new image for the tweak.'')
                           | Some imagePart \<Rightarrow>
                               (case inlineData imagePart of
                                  None \<Rightarrow> Inl (Error ''The model did not return a new image for the tweak.'')
                                | Some blob \<Rightarrow>
                                    (case processFinalImage_default w (data_url blob) of
                                       Inl e \<Rightarrow> Inl e
                                     | Inr processed \<Rightarrow> Inr (data_url blob, processed))))))))"

definition handleApplyTweak :: "'a world_scheme \<Rightarrow> session \<Rightarrow> string \<Rightarrow> string \<Rightarrow> flow" where
  "handleApplyTweak w s variantId tweakText =
     (case find (\<lambda>v. variant_id v = variantId) (variants s) of
        None \<Rightarrow>
          \<lparr>updates = [SetIsTweaking True, SetError None,
                      SetError (Some ''Could not find the variant to tweak.''),
                      SetIsTweaking False],
           calls = [], finished = True\<rparr>
      | Some variantToTweak \<Rightarrow>
          (case tweak w variantToTweak tweakText of
             (cs, None) \<Rightarrow>
               \<lparr>updates = [SetIsTweaking True, SetError None], calls = cs, finished = False\<rparr>
           | (cs, Some (Inl e)) \<Rightarrow>
               \<lparr>updates = [SetIsTweaking True, SetError None,
                           SetError (Some ''Sorry, the tweak could not be applied. Please try again.''),
                           SetIsTweaking False],
                calls = cs, finished = True\<rparr>
           | (cs, Some (Inr (newSourceGraphicUrl, newDisplayImageUrl))) \<Rightarrow>
               \<lparr>updates = [SetIsTweaking True, SetError None,
                           TweakVariants variantId newSourceGraphicUrl newDisplayImageUrl,
                           SetIsTweaking False],
                calls = cs, finished = True\<rparr>))"

subsection \<open>The other handlers\<close>

text \<open>\<open>handleImageUpload\<close>, on \<open>event.target.files[0]\<close> when there is one.\<close>

definition handleImageUpload :: "File option \<Rightarrow> flow" where
  "handleImageUpload file =
     \<lparr>updates = [SetError None, SetVariants [], SetCompareOn False] @
                 (case file of None \<Rightarrow> [] | Some f \<Rightarrow> [SetOriginalImage f]),
      calls = [], finished = True\<rparr>"

definition onExportPng :: "'a world_scheme \<Rightarrow> session \<Rightarrow> string \<Rightarrow> flow" where
  "onExportPng w s variantId =
     (case find (\<lambda>v. variant_id v = variantId) (variants s) of
        None \<Rightarrow>
          \<lparr>updates = [SetError (Some ''Could not find the specified variant to export.'')],
           calls = [], finished = True\<rparr>
      | Some variantToExport \<Rightarrow>
          (case (if displayImageUrl variantToExport \<noteq> [] then Inr (displayImageUrl variantToExport)
                 else processFinalImage_default w (sourceGraphicUrl variantToExport)) of
             Inl e \<Rightarrow>
               \<lparr>updates = [SetError (Some ''Could not process the image for export. Please try again.'')],
                calls = [], finished = True\<rparr>
           | Inr exportUrl \<Rightarrow>
               (case link_click w of
                  None \<Rightarrow>
                    \<lparr>updates = [], calls = [Download exportUrl ''slide_surgeon_export.png''],
                     finished = True\<rparr>
                | Some e \<Rightarrow>
                    \<lparr>updates = [SetError (Some ''Could not export the image. Please try again.'')],
                     calls = [], finished = True\<rparr>)))"

definition handleImproveSlide :: "'a world_scheme \<Rightarrow> session \<Rightarrow> flow" where
  "handleImproveSlide w s =
     (case variants s of
        [] \<Rightarrow> handleGenerateVariants w s
      | v # vs \<Rightarrow>
          if trim_truthy (tweakRequest s) then handleApplyTweak w s (variant_id v) (tweakRequest s)
          else handleGenerateVariants w s)"

subsection \<open>The events of the page\<close>

text \<open>
  What the user can do: choose a file, choose a style, toggle the comparison, type a
  request, press the improve button, press the export button (which does nothing without
  a variant).
\<close>

datatype event =
    ImageUpload "File option"
  | StylePresetChange StylePreset
  | CompareToggle
  | TweakChange string
  | ImproveSlide
  | ExportPng

fun handle :: "world \<Rightarrow> session \<Rightarrow> event \<Rightarrow> flow" where
  "handle w s (ImageUpload file) = handleImageUpload file"
| "handle w s (StylePresetChange preset) =
     \<lparr>updates = [SetStylePreset preset], calls = [], finished = True\<rparr>"
| "handle w s CompareToggle = \<lparr>updates = [ToggleCompareOn], calls = [], finished = True\<rparr>"
| "handle w s (TweakChange t) = \<lparr>updates = [SetTweakRequest t], calls = [], finished = True\<rparr>"
| "handle w s ImproveSlide = handleImproveSlide w s"
| "handle w s ExportPng =
     (case variants s of
        [] \<Rightarrow> \<lparr>updates = [], calls = [], finished = True\<rparr>
      | v # vs \<Rightarrow> onExportPng w s (variant_id v))"

text \<open>
  The page over time. The runtime is single-threaded, but a flow gives way at every
  \<open>await\<close>, so the updates of flows in flight interleave. A configuration is the session
  and, for every flow started, the updates it has still to make. An event starts the flow
  of its handler on the session of that moment, in any outside world; any flow in flight
  may make its next update.
\<close>

inductive reachable :: "session \<Rightarrow> update list list \<Rightarrow> bool" where
  start: "reachable initial []"
| dispatch: "reachable s pending \<Longrightarrow> reachable s (updates (handle w s e) # pending)"
| commit: "reachable s pending \<Longrightarrow> i < length pending \<Longrightarrow> pending ! i = u # us \<Longrightarrow>
     reachable (apply_update u s) (pending[i := us])"

section \<open>Notions of the properties\<close>

text \<open>The session a flow leaves when nothing else updates it meanwhile.\<close>

definition after :: "flow \<Rightarrow> session \<Rightarrow> session" where
  "after run s = apply_updates (updates run) s"

text \<open>
  The variant a generation run builds, if it builds one, and the images an edit run
  obtains, if it obtains them.
\<close>

definition generated :: "'a world_scheme \<Rightarrow> session \<Rightarrow> Variant option" where
  "generated w s =
     (case originalImage s of
        None \<Rightarrow> None
      | Some f \<Rightarrow> (case snd (generate w s f) of Some (Inr v) \<Rightarrow> Some v | _ \<Rightarrow> None))"

definition tweaked :: "'a world_scheme \<Rightarrow> session \<Rightarrow> string \<Rightarrow> string \<Rightarrow> (string \<times> string) option" where
  "tweaked w s variantId tweakText =
     (case find (\<lambda>v. variant_id v = variantId) (variants s) of
        None \<Rightarrow> None
      | Some v \<Rightarrow> (case snd (tweak w v tweakText) of Some (Inr images) \<Rightarrow> Some images | _ \<Rightarrow> None))"

text \<open>
  A response read as the specification reads it: the parts it carries, whether a textual
  title part is among them, whether a binary image part is.
\<close>

definition parts_of :: "GenerateContentResponse \<Rightarrow> Part list" where
  "parts_of response = (case response_parts response of None \<Rightarrow> [] | Some ps \<Rightarrow> ps)"

definition lacks_title :: "GenerateContentResponse \<Rightarrow> bool" where
  "lacks_title response \<longleftrightarrow> find has_text (parts_of response) = None"

definition lacks_image :: "GenerateContentResponse \<Rightarrow> bool" where
  "lacks_image response \<longleftrightarrow> find has_inlineData (parts_of response) = None"

definition settles_within :: "nat \<Rightarrow> 'a promise \<Rightarrow> bool" where
  "settles_within ms p = (case p of None \<Rightarrow> False | Some (t, r) \<Rightarrow> t \<le> ms)"

text \<open>The response of a generator call to a given list of parts.\<close>

definition response_with :: "Part list \<Rightarrow> GenerateContentResponse" where
  "response_with ps = \<lparr>candidates = Some [\<lparr>content = Some \<lparr>parts = Some ps\<rparr>\<rparr>]\<rparr>"

definition title_part :: Part where
  "title_part = \<lparr>part_text = Some ''Roadmap 2024 at a Glance'', inlineData = None\<rparr>"

definition image_part :: Part where
  "image_part =
     \<lparr>part_text = None,
      inlineData = Some \<lparr>mimeType = Some ''image/png'', data = Some ''iVBORw0KGgo=''\<rparr>\<rparr>"

text \<open>
  A rendering of values as text, made to agree with \<open>JSON.stringify(v, null, 2)\<close> on the
  values whose numbers are whole and below \<open>10^21\<close> in size and whose property names are
  not numerals (the runtime lists those first), as those of the fixtures are:
  two spaces of indentation for each level, a property whose value is \<open>undefined\<close> left out,
  \<open>undefined\<close> in an array rendered as \<open>null\<close>, and in a string the quote, the backslash and
  the control characters escaped. Of a number that is not whole it renders the whole part
  only, which is not what the runtime does; such numbers do not occur below. It stands for
  \<open>JSON.stringify\<close> in the worlds used as examples.
\<close>

function digits :: "nat \<Rightarrow> string" where
  "digits n = (if n < 10 then [char_of (48 + n)] else digits (n div 10) @ [char_of (48 + n mod 10)])"
  by pat_completeness auto
termination
  by (relation "measure id") auto

definition number_text :: "rat \<Rightarrow> string" where
  "number_text q = (if q < 0 \<and> \<lfloor>\<bar>q\<bar>\<rfloor> \<noteq> 0 then ''-'' else []) @ digits (nat \<lfloor>\<bar>q\<bar>\<rfloor>)"

definition hex_digit :: "nat \<Rightarrow> char" where
  "hex_digit n = (if n < 10 then char_of (48 + n) else char_of (87 + n))"

definition escape :: "char \<Rightarrow> string" where
  "escape c =
     (if c = CHR 0x22 then [CHR 0x5C, CHR 0x22]
      else if c = CHR 0x5C then [CHR 0x5C, CHR 0x5C]
      else if c = CHR 0x08 then [CHR 0x5C, CHR ''b'']
      else if c = CHR 0x09 then [CHR 0x5C, CHR ''t'']
      else if c = CHR 0x0A then [CHR 0x5C, CHR ''n'']
      else if c = CHR 0x0C then [CHR 0x5C, CHR ''f'']
      else if c = CHR 0x0D then [CHR 0x5C, CHR ''r'']
      else if (of_char c :: nat) < 32
        then [CHR 0x5C, CHR ''u'', CHR ''0'', CHR ''0'',
              hex_digit (of_char c div 16), hex_digit (of_char c mod 16)]
      else [c])"

definition quote :: "string \<Rightarrow> string" where
  "quote s = CHR 0x22 # concat (map escape s) @ [CHR 0x22]"

fun separated :: "string \<Rightarrow> string list \<Rightarrow> string" where
  "separated sep [] = []"
| "separated sep [t] = t"
| "separated sep (t # u # ts) = t @ sep @ separated sep (u # ts)"

definition block :: "char \<Rightarrow> char \<Rightarrow> string \<Rightarrow> string list \<Rightarrow> string" where
  "block opening closing indent entries =
     (if entries = [] then [opening, closing]
      else [opening, CHR 0x0A] @
           separated [CHR '','', CHR 0x0A] (map (\<lambda>t. indent @ ''  '' @ t) entries) @
           [CHR 0x0A] @ indent @ [closing])"

fun render :: "string \<Rightarrow> js \<Rightarrow> string"
  and render_items :: "string \<Rightarrow> js list \<Rightarrow> string list"
  and render_members :: "string \<Rightarrow> (string \<times> js) list \<Rightarrow> string list" where
  "render indent JUndefined = ''null''"
| "render indent JNull = ''null''"
| "render indent (JBool b) = (if b then ''true'' else ''false'')"
| "render indent (JNum q) = number_text q"
| "render indent (JStr s) = quote s"
| "render indent (JArr xs) = block CHR ''['' CHR '']'' indent (render_items (indent @ ''  '') xs)"
| "render indent (JObj kvs) = block CHR ''{'' CHR ''}'' indent (render_members (indent @ ''  '') kvs)"
| "render_items indent [] = []"
| "render_items indent (x # xs) = render indent x # render_items indent xs"
| "render_members indent [] = []"
| "render_members indent ((k, v) # kvs) =
     (if v = JUndefined then render_members indent kvs
      else (quote k @ '': '' @ render indent v) # render_members indent kvs)"

definition JSON_text :: "js \<Rightarrow> string" where
  "JSON_text v = (if v = JUndefined then ''undefined'' else render [] v)"

text \<open>
  The first two entries of \<open>DEMO_DATA\<close>, which \<open>demo-data.ts\<close> lists in full, and an outside
  world in which every call succeeds: the arithmetic is exact, every image loads as a
  square of 1024 pixels, the extraction answers with an empty object, the generator
  answers with a title and an image after eight seconds.
\<close>

definition DEMO_roadmap :: js where
  "DEMO_roadmap =
     JObj [(''tasks'', JArr
       [JObj [(''taskName'', JStr ''Launch Beta Program''), (''owner'', JStr ''Product Team''),
              (''timeline'', JStr ''Q1 2024''), (''status'', JStr ''Completed'')],
        JObj [(''taskName'', JStr ''User Feedback Analysis''), (''owner'', JStr ''UX Research''),
              (''timeline'', JStr ''Q2 2024''), (''status'', JStr ''In Progress'')],
        JObj [(''taskName'', JStr ''V2 Feature Planning''), (''owner'', JStr ''Product Team''),
              (''timeline'', JStr ''Q3 2024''), (''status'', JStr ''Not Started'')],
        JObj [(''taskName'', JStr ''Public Launch Campaign''), (''owner'', JStr ''Marketing''),
              (''timeline'', JStr ''Q4 2024''), (''status'', JStr ''Not Started'')]])]"

definition DEMO_survey :: js where
  "DEMO_survey =
     JObj [(''questions'', JArr
       [JObj [(''questionText'', JStr ''How satisfied are you with our product?''),
              (''data'', JArr
                [JObj [(''label'', JStr ''Very Satisfied''), (''value'', JNum 45)],
                 JObj [(''label'', JStr ''Satisfied''), (''value'', JNum 30)],
                 JObj [(''label'', JStr ''Neutral''), (''value'', JNum 15)],
                 JObj [(''label'', JStr ''Unsatisfied''), (''value'', JNum 10)]])],
        JObj [(''questionText'', JStr ''Which feature is most important to you?''),
              (''data'', JArr
                [JObj [(''label'', JStr ''Reporting''), (''value'', JNum 55)],
                 JObj [(''label'', JStr ''Integrations''), (''value'', JNum 25)],
                 JObj [(''label'', JStr ''UI/UX''), (''value'', JNum 15)],
                 JObj [(''label'', JStr ''Support''), (''value'', JNum 5)]])]])]"

text \<open>The JSON text of the two entries, indented by two spaces.\<close>

definition roadmap_json :: string where
  "roadmap_json =
     ''{\<newline>'' @
     ''  \"tasks\": [\<newline>'' @
     ''    {\<newline>'' @
     ''      \"taskName\": \"Launch Beta Program\",\<newline>'' @
     ''      \"owner\": \"Product Team\",\<newline>'' @
     ''      \"timeline\": \"Q1 2024\",\<newline>'' @
     ''      \"status\": \"Completed\"\<newline>'' @
     ''    },\<newline>'' @
     ''    {\<newline>'' @
     ''      \"taskName\": \"User Feedback Analysis\",\<newline>'' @
     ''      \"owner\": \"UX Research\",\<newline>'' @
     ''      \"timeline\": \"Q2 2024\",\<newline>'' @
     ''      \"status\": \"In Progress\"\<newline>'' @
     ''    },\<newline>'' @
     ''    {\<newline>'' @
     ''      \"taskName\": \"V2 Feature Planning\",\<newline>'' @
     ''      \"owner\": \"Product Team\",\<newline>'' @
     ''      \"timeline\": \"Q3 2024\",\<newline>'' @
     ''      \"status\": \"Not Started\"\<newline>'' @
     ''    },\<newline>'' @
     ''    {\<newline>'' @
     ''      \"taskName\": \"Public Launch Campaign\",\<newline>'' @
     ''      \"owner\": \"Marketing\",\<newline>'' @
     ''      \"timeline\": \"Q4 2024\",\<newline>'' @
     ''      \"status\": \"Not Started\"\<newline>'' @
     ''    }\<newline>'' @
     ''  ]\<newline>'' @
     ''}''"

definition survey_json :: string where
  "survey_json =
     ''{\<newline>'' @
     ''  \"questions\": [\<newline>'' @
     ''    {\<newline>'' @
     ''      \"questionText\": \"How satisfied are you with our product?\",\<newline>'' @
     ''      \"data\": [\<newline>'' @
     ''        {\<newline>'' @
     ''          \"label\": \"Very Satisfied\",\<newline>'' @
     ''          \"value\": 45\<newline>'' @
     ''        },\<newline>'' @
     ''        {\<newline>'' @
     ''          \"label\": \"Satisfied\",\<newline>'' @
     ''          \"value\": 30\<newline>'' @
     ''        },\<newline>'' @
     ''        {\<newline>'' @
     ''          \"label\": \"Neutral\",\<newline>'' @
     ''          \"value\": 15\<newline>'' @
     ''        },\<newline>'' @
     ''        {\<newline>'' @
     ''          \"label\": \"Unsatisfied\",\<newline>'' @
     ''          \"value\": 10\<newline>'' @
     ''        }\<newline>'' @
     ''      ]\<newline>'' @
     ''    },\<newline>'' @
     ''    {\<newline>'' @
     ''      \"questionText\": \"Which feature is most important to you?\",\<newline>'' @
     ''      \"data\": [\<newline>'' @
     ''        {\<newline>'' @
     ''          \"label\": \"Reporting\",\<newline>'' @
     ''          \"value\": 55\<newline>'' @
     ''        },\<newline>'' @
     ''        {\<newline>'' @
     ''          \"label\": \"Integrations\",\<newline>'' @
     ''          \"value\": 25\<newline>'' @
     ''        },\<newline>'' @
     ''        {\<newline>'' @
     ''          \"label\": \"UI/UX\",\<newline>'' @
     ''          \"value\": 15\<newline>'' @
     ''        },\<newline>'' @
     ''        {\<newline>'' @
     ''          \"label\": \"Support\",\<newline>'' @
     ''          \"value\": 5\<newline>'' @
     ''        }\<newline>'' @
     ''      ]\<newline>'' @
     ''    }\<newline>'' @
     ''  ]\<newline>'' @
     ''}''"

definition fair_world :: world where
  "fair_world =
     \<lparr>getContext_2d = True,
      image_load = (\<lambda>url. Some \<lparr>img_width = 1024, img_height = 1024\<rparr>),
      rounding = (\<lambda>x. x),
      toDataURL = (\<lambda>c. ''data:image/png;base64,Q0FOVkFT''),
      DEMO_DATA = [(''roadmap.png'', DEMO_roadmap), (''survey.png'', DEMO_survey)],
      new_GoogleGenAI = None,
      fileToBase64 = (\<lambda>f. Inr ''iVBORw0KGgo=''),
      ocr_generateContent = Some (900, Fulfilled (Some ''{}'')),
      JSON_parse_trimmed = (\<lambda>t. Some (JObj [])),
      typeError = ''Cannot read properties of null'',
      JSON_stringify = JSON_text,
      generateContent = Some (8000, Fulfilled (response_with [title_part, image_part])),
      tweak_generateContent = Some (5000, Fulfilled (response_with [image_part])),
      randomUUID = ''3b241101-e2bb-4255-8caf-4136c566a962'',
      link_click = None\<rparr>"

definition roadmap_png :: File where
  "roadmap_png = \<lparr>file_name = ''roadmap.png'', file_type = ''image/png''\<rparr>"

definition slide_png :: File where
  "slide_png = \<lparr>file_name = ''slide.png'', file_type = ''image/png''\<rparr>"

text \<open>The session after \<open>roadmap.png\<close> was chosen, and after a generation for it in the fair world.\<close>

definition uploaded :: session where
  "uploaded = after (handle fair_world initial (ImageUpload (Some roadmap_png))) initial"

definition ready :: session where
  "ready = after (handle fair_world uploaded ImproveSlide) uploaded"

text \<open>The variant that this generation builds.\<close>

definition fair_variant :: Variant where
  "fair_variant =
     \<lparr>variant_id = ''3b241101-e2bb-4255-8caf-4136c566a962'',
      sourceGraphicUrl = ''data:image/png;base64,iVBORw0KGgo='',
      displayImageUrl = ''data:image/png;base64,Q0FOVkFT'',
      truthLockStatus = Verified\<rparr>"

text \<open>The fair world, except that the generator never answers a generation request.\<close>

definition silent_world :: world where
  "silent_world = fair_world\<lparr>generateContent := None\<rparr>"


text \<open>
  The fair world, except that the generator answers a generation request after 61
  seconds; with an image and no title; with no part at all.
\<close>

definition late_world :: world where
  "late_world =
     fair_world\<lparr>generateContent := Some (61000, Fulfilled (response_with [title_part, image_part]))\<rparr>"

definition untitled_world :: world where
  "untitled_world = fair_world\<lparr>generateContent := Some (8000, Fulfilled (response_with [image_part]))\<rparr>"

definition empty_world :: world where
  "empty_world = fair_world\<lparr>generateContent := Some (8000, Fulfilled (response_with []))\<rparr>"

text \<open>A call that belongs to the extraction: a run of \<open>runOcrOnImage\<close>, or its request.\<close>

fun extraction_call :: "call \<Rightarrow> bool" where
  "extraction_call (RunOcrOnImage f) = True"
| "extraction_call (GenerateContent model ps) = (model = ''gemini-2.5-flash'')"
| "extraction_call (Download url name) = False"

section \<open>Notions of the invariant\<close>

text \<open>
  An update is \<open>sound\<close> when, if it sets the variants, it sets at most one and only
  verified ones; it \<open>publishes\<close> when it sets the variants to a list that is not empty.
\<close>

fun sound :: "update \<Rightarrow> bool" where
  "sound (SetVariants vs) = (length vs \<le> 1 \<and> (\<forall>v \<in> set vs. truthLockStatus v = Verified))"
| "sound u = True"

fun publishes :: "update \<Rightarrow> bool" where
  "publishes (SetVariants vs) = (vs \<noteq> [])"
| "publishes u = False"

definition invariant :: "session \<Rightarrow> update list list \<Rightarrow> bool" where
  "invariant s pending \<longleftrightarrow>
     length (variants s) \<le> 1 \<and>
     (\<forall>v \<in> set (variants s). truthLockStatus v \<noteq> Verifying) \<and>
     (\<forall>us \<in> set pending. \<forall>u \<in> set us. sound u) \<and>
     (originalImage s = None \<longrightarrow>
        variants s = [] \<and> (\<forall>us \<in> set pending. \<forall>u \<in> set us. \<not> publishes u))"

section \<open>Properties of the Image Compositor\<close>

subsection \<open>Rounding\<close>

lemma rnd_exact:
  assumes "ieee_double rnd" and "\<bar>m\<bar> < 2 ^ 53" and "k \<le> 1074"
  shows "rnd (of_int m / 2 ^ k) = of_int m / 2 ^ k"
  using assms unfolding ieee_double_def by blast

lemma rnd_err:
  assumes "ieee_double rnd" and "\<bar>x\<bar> \<le> 2 ^ 64"
  shows "\<bar>rnd x - x\<bar> \<le> \<bar>x\<bar> / 2 ^ 53 + 1 / 2 ^ 100"
proof -
  have "(2::rat) ^ 64 \<le> 2 ^ 1023" by (rule power_increasing) simp_all
  with assms(2) have "\<bar>x\<bar> \<le> 2 ^ 1023" by (rule order_trans)
  with assms(1) have "\<bar>rnd x - x\<bar> \<le> \<bar>x\<bar> / 2 ^ 53 + 1 / 2 ^ 1075"
    unfolding ieee_double_def by blast
  moreover have "(1::rat) / 2 ^ 1075 \<le> 1 / 2 ^ 100"
    by (intro divide_left_mono power_increasing mult_pos_pos zero_less_power) simp_all
  ultimately show ?thesis by (simp only: add_left_mono order_trans)
qed

lemma rnd_near:
  assumes "ieee_double rnd" and "\<bar>x\<bar> \<le> 2 ^ 35"
  shows "x - 1 / 2 ^ 17 \<le> rnd x" and "rnd x \<le> x + 1 / 2 ^ 17"
proof -
  from assms(2) have "\<bar>x\<bar> \<le> 2 ^ 64" by simp
  from rnd_err [OF assms(1) this]
  have e: "\<bar>rnd x - x\<bar> \<le> \<bar>x\<bar> / 2 ^ 53 + 1 / 2 ^ 100" .
  have "\<bar>x\<bar> / 2 ^ 53 \<le> 2 ^ 35 / 2 ^ 53"
    using assms(2) by (intro divide_right_mono) simp_all
  then have "\<bar>x\<bar> / 2 ^ 53 + 1 / 2 ^ 100 \<le> 1 / 2 ^ 17" by simp
  with e have "\<bar>rnd x - x\<bar> \<le> 1 / 2 ^ 17" by (rule order_trans)
  then have "x - 1 / 2 ^ 17 \<le> rnd x \<and> rnd x \<le> x + 1 / 2 ^ 17"
    by (simp only: abs_diff_le_iff)
  then show "x - 1 / 2 ^ 17 \<le> rnd x" and "rnd x \<le> x + 1 / 2 ^ 17" by simp_all
qed

text \<open>Arithmetic that rounds nothing satisfies \<open>ieee_double\<close>.\<close>

lemma ieee_double_identity: "ieee_double (\<lambda>x. x)"
  unfolding ieee_double_def
proof (intro conjI allI impI)
  fix x :: rat
  have "0 \<le> \<bar>x\<bar> / 2 ^ 53" by (intro divide_nonneg_nonneg abs_ge_zero zero_le_power) simp
  moreover have "(0::rat) \<le> 1 / 2 ^ 1075" by (intro divide_nonneg_nonneg zero_le_power) simp_all
  ultimately have "0 \<le> \<bar>x\<bar> / 2 ^ 53 + 1 / 2 ^ 1075" by (rule add_nonneg_nonneg)
  then show "\<bar>x - x\<bar> \<le> \<bar>x\<bar> / 2 ^ 53 + 1 / 2 ^ 1075" by (simp only: diff_self abs_zero)
next
  fix m :: int and k :: nat
  show "rat_of_int m / 2 ^ k = rat_of_int m / 2 ^ k" ..
qed

subsection \<open>The size of the canvas\<close>

lemma rnd_sixteenth:
  assumes "ieee_double rnd" and "w \<le> 2147483647"
  shows "rnd (of_nat w / 16) = of_nat w / 16"
proof -
  have "\<bar>int w\<bar> < 2 ^ 53" using assms(2) by simp
  from rnd_exact [OF assms(1) this, of 4] show ?thesis by simp
qed

lemma targetHeight_exact:
  assumes "ieee_double rnd" and "w \<le> 2147483647"
  shows "targetHeight rnd w = of_int (9 * int w) / 16"
proof -
  have "\<bar>9 * int w\<bar> < 2 ^ 53" using assms(2) by simp
  from rnd_exact [OF assms(1) this, of 4]
  have e: "rnd (of_int (9 * int w) / 2 ^ 4) = of_int (9 * int w) / 2 ^ 4" by simp
  have "(of_nat w / 16 * 9 :: rat) = of_int (9 * int w) / 2 ^ 4" by simp
  then have "targetHeight rnd w = rnd (of_int (9 * int w) / 2 ^ 4)"
    unfolding targetHeight_def rnd_sixteenth [OF assms] by (rule arg_cong)
  with e show ?thesis by simp
qed

lemma unsigned_long_of_nat: "n < 2 ^ 32 \<Longrightarrow> unsigned_long (of_nat n) = n"
  unfolding unsigned_long_def by simp

lemma unsigned_long_quotient:
  assumes "a div 16 < 2 ^ 32"
  shows "unsigned_long (of_int (int a) / 16) = a div 16"
proof -
  have "\<lfloor>(of_int (int a) / 16 :: rat)\<rfloor> = int a div 16"
    using floor_divide_of_int_eq [of "int a" 16, where ?'a = rat] by simp
  moreover have "(0::rat) \<le> of_int (int a) / 16" by simp
  moreover have "int a div 16 mod 2 ^ 32 = int a div 16"
    using assms by (simp add: zdiv_int [symmetric] del: zdiv_int)
  ultimately show ?thesis unfolding unsigned_long_def by (simp add: zdiv_int)
qed

lemma set_dimension_le: "dflt \<le> 2147483647 \<Longrightarrow> set_dimension dflt v \<le> 2147483647"
  by (simp add: set_dimension_def Let_def)

lemma new_canvas_dims:
  "canvas_width (new_canvas rnd bg w) \<le> 2147483647"
  "canvas_height (new_canvas rnd bg w) \<le> 2147483647"
  by (simp_all add: new_canvas_def set_dimension_le)

text \<open>
  C4, as the code has it. For a source image that loads and a target width that a canvas
  takes (a whole number of pixels from 0 to 2147483647), the compositor resolves with the
  encoding of a canvas that has exactly the requested width and the height
  \<open>width * 9 / 16\<close> rounded down to a whole number: the height is \<open>(width * 9) div 16\<close>,
  which is at most \<open>width * 9 / 16\<close> and less than one pixel below it.
\<close>

theorem compositor_canvas_size:
  assumes "ieee_double (rounding b)" and "targetWidth \<le> 2147483647"
    and "getContext_2d b" and "image_load b imageDataUrl = Some img"
  shows "\<exists>c. composite b imageDataUrl backgroundColor targetWidth = Inr c \<and>
           processFinalImage b imageDataUrl backgroundColor targetWidth = Inr (toDataURL b c) \<and>
           canvas_width c = targetWidth \<and>
           canvas_height c = (targetWidth * 9) div 16 \<and>
           rat_of_nat (canvas_height c) \<le> rat_of_nat targetWidth * 9 / 16 \<and>
           rat_of_nat targetWidth * 9 / 16 < rat_of_nat (canvas_height c) + 1"
proof -
  let ?blank = "new_canvas (rounding b) backgroundColor targetWidth"
  let ?c = "?blank\<lparr>drawn := map_option (\<lambda>p. (imageDataUrl, p)) (contain (rounding b) ?blank img)\<rparr>"
  have w: "canvas_width ?c = targetWidth"
    using assms(2) by (simp add: new_canvas_def set_dimension_def unsigned_long_of_nat)
  have "(targetWidth * 9) div 16 < 2 ^ 32" using assms(2) by simp
  then have "unsigned_long (of_int (int (targetWidth * 9)) / 16) = (targetWidth * 9) div 16"
    by (rule unsigned_long_quotient)
  moreover have "(targetWidth * 9) div 16 \<le> 2147483647" using assms(2) by simp
  ultimately have h: "canvas_height ?c = (targetWidth * 9) div 16"
    by (simp add: new_canvas_def set_dimension_def Let_def targetHeight_exact [OF assms(1,2)] mult.commute)
  have lo: "rat_of_nat ((targetWidth * 9) div 16) \<le> rat_of_nat targetWidth * 9 / 16"
  proof -
    have "16 * ((targetWidth * 9) div 16) \<le> targetWidth * 9" by simp
    then have "rat_of_nat (16 * ((targetWidth * 9) div 16)) \<le> rat_of_nat (targetWidth * 9)"
      by (simp only: of_nat_le_iff)
    then show ?thesis by simp
  qed
  have hi: "rat_of_nat targetWidth * 9 / 16 < rat_of_nat ((targetWidth * 9) div 16) + 1"
  proof -
    have "targetWidth * 9 < 16 * ((targetWidth * 9) div 16) + 16"
      using mod_less_divisor [of 16 "targetWidth * 9"] mult_div_mod_eq [of 16 "targetWidth * 9"]
      by linarith
    then have "rat_of_nat (targetWidth * 9) < rat_of_nat (16 * ((targetWidth * 9) div 16) + 16)"
      by (simp only: of_nat_less_iff)
    then show ?thesis by simp
  qed
  have c: "composite b imageDataUrl backgroundColor targetWidth = Inr ?c"
    using assms(3,4) by (simp add: composite_def Let_def)
  have p: "processFinalImage b imageDataUrl backgroundColor targetWidth = Inr (toDataURL b ?c)"
    unfolding processFinalImage_def c by simp
  show ?thesis
  proof (intro exI [of _ ?c] conjI)
    show "composite b imageDataUrl backgroundColor targetWidth = Inr ?c" by (fact c)
    show "processFinalImage b imageDataUrl backgroundColor targetWidth = Inr (toDataURL b ?c)"
      by (fact p)
    show "canvas_width ?c = targetWidth" by (fact w)
    show "canvas_height ?c = (targetWidth * 9) div 16" by (fact h)
    show "rat_of_nat (canvas_height ?c) \<le> rat_of_nat targetWidth * 9 / 16"
      unfolding h by (fact lo)
    show "rat_of_nat targetWidth * 9 / 16 < rat_of_nat (canvas_height ?c) + 1"
      unfolding h by (fact hi)
  qed
qed

text \<open>
  At the width 100, where \<open>100 * 9 / 16 = 56.25\<close>, the canvas is 100 by 56.
\<close>

theorem compositor_canvas_size_witness:
  "\<exists>c. composite
          \<lparr>getContext_2d = True,
           image_load = (\<lambda>u. Some \<lparr>img_width = 1024, img_height = 1024\<rparr>),
           rounding = (\<lambda>x. x),
           toDataURL = (\<lambda>c. ''data:image/png;base64,AA=='')\<rparr>
          ''data:image/png;base64,iVBORw=='' ''#FFFFFF'' 100 = Inr c \<and>
       canvas_width c = 100 \<and> canvas_height c = 56"
proof -
  let ?b = "\<lparr>getContext_2d = True,
             image_load = (\<lambda>u. Some \<lparr>img_width = 1024, img_height = 1024\<rparr>),
             rounding = (\<lambda>x. x),
             toDataURL = (\<lambda>c. ''data:image/png;base64,AA=='')\<rparr>"
  have 1: "ieee_double (rounding ?b)" by (simp add: ieee_double_identity)
  have 2: "(100::nat) \<le> 2147483647" by simp
  have 3: "getContext_2d ?b" by simp
  have 4: "image_load ?b ''data:image/png;base64,iVBORw=='' = Some \<lparr>img_width = 1024, img_height = 1024\<rparr>"
    by simp
  from compositor_canvas_size [OF 1 2 3 4, of "''#FFFFFF''"]
  obtain c where "composite ?b ''data:image/png;base64,iVBORw=='' ''#FFFFFF'' 100 = Inr c"
    and "canvas_width c = 100" and "canvas_height c = 100 * 9 div 16"
    by blast
  then show ?thesis by (intro exI [of _ c]) simp
qed

text \<open>
  C4, as the specification has it, fails: not every target width is kept. For a source
  image that loads, at the width 2147483648, the first that the canvas attribute does not
  take, the canvas has the default width 300 and the height 1207959552; at the width
  \<open>2^32 + 100\<close> the attribute wraps and the canvas has the width 100.
\<close>

theorem compositor_canvas_size_counterexample:
  "image_load fair_world ''data:image/png;base64,iVBORw0KGgo='' =
     Some \<lparr>img_width = 1024, img_height = 1024\<rparr> \<and>
   map_sum id canvas_width
     (composite fair_world ''data:image/png;base64,iVBORw0KGgo='' ''#FFFFFF'' 2147483648) = Inr 300 \<and>
   map_sum id canvas_height
     (composite fair_world ''data:image/png;base64,iVBORw0KGgo='' ''#FFFFFF'' 2147483648) =
     Inr 1207959552 \<and>
   map_sum id canvas_width
     (composite fair_world ''data:image/png;base64,iVBORw0KGgo='' ''#FFFFFF'' 4294967396) = Inr 100"
  by (simp add: composite_def Let_def fair_world_def new_canvas_def set_dimension_def
      unsigned_long_def targetHeight_def)

subsection \<open>Fitting and centring\<close>

text \<open>The quotient of a canvas side by an image side, rounded.\<close>

lemma ratio_bounds:
  assumes "ieee_double rnd" and "0 < iw" and "cw \<le> 2147483647"
  shows "\<bar>rnd (rat_of_nat cw / rat_of_nat iw) - rat_of_nat cw / rat_of_nat iw\<bar>
           \<le> (rat_of_nat cw / rat_of_nat iw) / 2 ^ 53 + 1 / 2 ^ 100"
proof -
  let ?q = "rat_of_nat cw / rat_of_nat iw"
  have "1 \<le> rat_of_nat iw" using assms(2) by simp
  then have "rat_of_nat cw / rat_of_nat iw \<le> rat_of_nat cw / 1"
    by (intro divide_left_mono) simp_all
  then have "?q \<le> rat_of_nat cw" by simp
  moreover have "rat_of_nat cw \<le> rat_of_nat 2147483647" using assms(3) by (simp only: of_nat_le_iff)
  moreover have "0 \<le> ?q" by simp
  ultimately have "\<bar>?q\<bar> \<le> 2 ^ 64" by simp
  from rnd_err [OF assms(1) this] \<open>0 \<le> ?q\<close> show ?thesis by simp
qed

text \<open>The drawn side \<open>rnd (iw * r)\<close> for a ratio \<open>r\<close> between the rounding slack and the rounded quotient.\<close>

lemma side_upper:
  assumes "ieee_double rnd" and "0 < iw" and "iw < 2 ^ 32" and "cw \<le> 2147483647"
    and "- (1 / 2 ^ 100) \<le> r" and "r \<le> rnd (rat_of_nat cw / rat_of_nat iw)"
  shows "rnd (rat_of_nat iw * r) \<le> rat_of_nat cw + 1 / 2 ^ 20"
    and "\<bar>rnd (rat_of_nat iw * r)\<bar> \<le> 2 ^ 33"
proof -
  let ?q = "rat_of_nat cw / rat_of_nat iw"
  let ?i = "rat_of_nat iw"
  have "rat_of_nat iw < rat_of_nat (2 ^ 32)" using assms(3) by (simp only: of_nat_less_iff)
  then have i: "1 \<le> ?i" "?i \<le> 2 ^ 32"
    using assms(2) by simp_all
  have "rat_of_nat cw \<le> rat_of_nat 2147483647" using assms(4) by (simp only: of_nat_le_iff)
  then have c: "0 \<le> rat_of_nat cw" "rat_of_nat cw \<le> 2147483647"
    by simp_all
  have "?i \<noteq> 0" using assms(2) by simp
  then have iq: "?i * ?q = rat_of_nat cw" by simp
  from ratio_bounds [OF assms(1,2,4)]
  have "rnd ?q \<le> ?q + ?q / 2 ^ 53 + 1 / 2 ^ 100" by linarith
  with assms(6) have "r \<le> ?q + ?q / 2 ^ 53 + 1 / 2 ^ 100" by linarith
  then have "?i * r \<le> ?i * (?q + ?q / 2 ^ 53 + 1 / 2 ^ 100)"
    using i by (intro mult_left_mono) simp_all
  also have "\<dots> = ?i * ?q + ?i * ?q / 2 ^ 53 + ?i / 2 ^ 100"
    by (simp only: distrib_left times_divide_eq_right mult_1_right)
  also have "\<dots> = rat_of_nat cw + rat_of_nat cw / 2 ^ 53 + ?i / 2 ^ 100"
    by (simp only: iq)
  finally have up: "?i * r \<le> rat_of_nat cw + rat_of_nat cw / 2 ^ 53 + ?i / 2 ^ 100" .
  have "?i * (- (1 / 2 ^ 100)) \<le> ?i * r"
    using i assms(5) by (intro mult_left_mono) simp_all
  then have lo: "- (?i / 2 ^ 100) \<le> ?i * r" by simp
  from up lo i c have a: "\<bar>?i * r\<bar> \<le> 2 ^ 32" by simp
  then have "\<bar>?i * r\<bar> \<le> 2 ^ 64" by simp
  from rnd_err [OF assms(1) this]
  have e: "\<bar>rnd (?i * r) - ?i * r\<bar> \<le> \<bar>?i * r\<bar> / 2 ^ 53 + 1 / 2 ^ 100" .
  from e a up i c show "rnd (?i * r) \<le> rat_of_nat cw + 1 / 2 ^ 20" by simp
  from e a show "\<bar>rnd (?i * r)\<bar> \<le> 2 ^ 33" by simp
qed

lemma ratio_lower:
  assumes "ieee_double rnd" and "0 < iw" and "cw \<le> 2147483647"
  shows "- (1 / 2 ^ 100) \<le> rnd (rat_of_nat cw / rat_of_nat iw)"
proof -
  let ?q = "rat_of_nat cw / rat_of_nat iw"
  have "0 \<le> ?q" by simp
  then have "?q / 2 ^ 53 \<le> ?q" by (simp add: divide_le_eq)
  with ratio_bounds [OF assms] show ?thesis by linarith
qed

text \<open>When the ratio is the rounded quotient of this very axis, the drawn side reaches the canvas side.\<close>

lemma side_lower:
  assumes "ieee_double rnd" and "0 < iw" and "iw < 2 ^ 32" and "cw \<le> 2147483647"
  shows "rat_of_nat cw - 1 / 2 ^ 20 \<le> rnd (rat_of_nat iw * rnd (rat_of_nat cw / rat_of_nat iw))"
proof -
  let ?q = "rat_of_nat cw / rat_of_nat iw"
  let ?i = "rat_of_nat iw"
  let ?r = "rnd ?q"
  have "rat_of_nat iw < rat_of_nat (2 ^ 32)" using assms(3) by (simp only: of_nat_less_iff)
  then have i: "1 \<le> ?i" "?i \<le> 2 ^ 32"
    using assms(2) by simp_all
  have "rat_of_nat cw \<le> rat_of_nat 2147483647" using assms(4) by (simp only: of_nat_le_iff)
  then have c: "0 \<le> rat_of_nat cw" "rat_of_nat cw \<le> 2147483647"
    by simp_all
  have "?i \<noteq> 0" using assms(2) by simp
  then have iq: "?i * ?q = rat_of_nat cw" by simp
  from ratio_bounds [OF assms(1,2,4)]
  have "?q - ?q / 2 ^ 53 - 1 / 2 ^ 100 \<le> ?r" by linarith
  then have "?i * (?q - ?q / 2 ^ 53 - 1 / 2 ^ 100) \<le> ?i * ?r"
    using i by (intro mult_left_mono) simp_all
  moreover have "?i * (?q - ?q / 2 ^ 53 - 1 / 2 ^ 100) = ?i * ?q - ?i * ?q / 2 ^ 53 - ?i / 2 ^ 100"
    by (simp only: right_diff_distrib times_divide_eq_right mult_1_right)
  ultimately have lo: "rat_of_nat cw - rat_of_nat cw / 2 ^ 53 - ?i / 2 ^ 100 \<le> ?i * ?r"
    by (simp only: iq)
  have "- (1 / 2 ^ 100) \<le> ?r" by (rule ratio_lower [OF assms(1,2,4)])
  from side_upper(2) [OF assms this order_refl]
  have b: "\<bar>rnd (?i * ?r)\<bar> \<le> 2 ^ 33" .
  have up: "?i * ?r \<le> 2 ^ 33"
  proof -
    from ratio_bounds [OF assms(1,2,4)]
    have "?r \<le> ?q + ?q / 2 ^ 53 + 1 / 2 ^ 100" by linarith
    then have "?i * ?r \<le> ?i * (?q + ?q / 2 ^ 53 + 1 / 2 ^ 100)"
      using i by (intro mult_left_mono) simp_all
    also have "\<dots> = ?i * ?q + ?i * ?q / 2 ^ 53 + ?i / 2 ^ 100"
      by (simp only: distrib_left times_divide_eq_right mult_1_right)
    also have "\<dots> = rat_of_nat cw + rat_of_nat cw / 2 ^ 53 + ?i / 2 ^ 100"
      by (simp only: iq)
    finally show ?thesis using i c by simp
  qed
  from lo up i c have a: "\<bar>?i * ?r\<bar> \<le> 2 ^ 33" by simp
  then have "\<bar>?i * ?r\<bar> \<le> 2 ^ 64" by simp
  from rnd_err [OF assms(1) this]
  have e: "\<bar>rnd (?i * ?r) - ?i * ?r\<bar> \<le> \<bar>?i * ?r\<bar> / 2 ^ 53 + 1 / 2 ^ 100" .
  from e a lo i c show ?thesis by simp
qed

text \<open>The padding before the drawn side against the padding after it.\<close>

lemma centred:
  assumes "ieee_double rnd" and "cw \<le> 2147483647" and "\<bar>d\<bar> \<le> 2 ^ 33"
  shows "\<bar>rnd (rnd (rat_of_nat cw - d) / 2) - (rat_of_nat cw - (rnd (rnd (rat_of_nat cw - d) / 2) + d))\<bar> \<le> 1"
proof -
  let ?D = "rat_of_nat cw - d"
  let ?A = "rnd ?D"
  let ?L = "rnd (?A / 2)"
  have "rat_of_nat cw \<le> rat_of_nat 2147483647" using assms(2) by (simp only: of_nat_le_iff)
  then have c: "0 \<le> rat_of_nat cw" "rat_of_nat cw \<le> 2147483647"
    by simp_all
  from assms(3) have d: "- (2 ^ 33) \<le> d" "d \<le> 2 ^ 33" by (simp_all only: abs_le_iff) linarith+
  from c d have D: "\<bar>?D\<bar> \<le> 2 ^ 35" by (simp only: abs_le_iff) simp
  note A = rnd_near [OF assms(1) D]
  from A c d have "\<bar>?A / 2\<bar> \<le> 2 ^ 35" by (simp only: abs_le_iff) simp
  note L = rnd_near [OF assms(1) this]
  from A L show ?thesis by (simp only: abs_le_iff) simp
qed


lemma min_ratio_lower:
  assumes "ieee_double rnd" and "0 < iw" and "cw \<le> 2147483647" and "0 < ih" and "ch \<le> 2147483647"
  shows "- (1 / 2 ^ 100) \<le> min (rnd (rat_of_nat cw / rat_of_nat iw)) (rnd (rat_of_nat ch / rat_of_nat ih))"
  using ratio_lower [OF assms(1,2,3)] ratio_lower [OF assms(1,4,5)] by (rule min.boundedI)

lemma contain_fits:
  assumes "ieee_double rnd"
    and "canvas_width c \<le> 2147483647" and "canvas_height c \<le> 2147483647"
    and "0 < img_width img" and "img_width img < 2 ^ 32"
    and "0 < img_height img" and "img_height img < 2 ^ 32"
    and "contain rnd c img = Some p"
  shows "dWidth p = rnd (rat_of_nat (img_width img) *
              min (rnd (rat_of_nat (canvas_width c) / rat_of_nat (img_width img)))
                  (rnd (rat_of_nat (canvas_height c) / rat_of_nat (img_height img)))) \<and>
           dHeight p = rnd (rat_of_nat (img_height img) *
              min (rnd (rat_of_nat (canvas_width c) / rat_of_nat (img_width img)))
                  (rnd (rat_of_nat (canvas_height c) / rat_of_nat (img_height img)))) \<and>
           dWidth p \<le> rat_of_nat (canvas_width c) + 1 / 2 ^ 20 \<and>
           dHeight p \<le> rat_of_nat (canvas_height c) + 1 / 2 ^ 20 \<and>
           (rat_of_nat (canvas_width c) - 1 / 2 ^ 20 \<le> dWidth p \<or>
            rat_of_nat (canvas_height c) - 1 / 2 ^ 20 \<le> dHeight p) \<and>
           \<bar>centerShift_x p - (rat_of_nat (canvas_width c) - (centerShift_x p + dWidth p))\<bar> \<le> 1 \<and>
           \<bar>centerShift_y p - (rat_of_nat (canvas_height c) - (centerShift_y p + dHeight p))\<bar> \<le> 1"
proof -
  let ?cw = "canvas_width c" and ?ch = "canvas_height c"
  let ?iw = "img_width img" and ?ih = "img_height img"
  let ?hRatio = "rnd (rat_of_nat ?cw / rat_of_nat ?iw)"
  let ?vRatio = "rnd (rat_of_nat ?ch / rat_of_nat ?ih)"
  let ?ratio = "min ?hRatio ?vRatio"
  let ?dw = "rnd (rat_of_nat ?iw * ?ratio)" and ?dh = "rnd (rat_of_nat ?ih * ?ratio)"
  let ?p = "\<lparr>centerShift_x = rnd (rnd (rat_of_nat ?cw - ?dw) / 2),
             centerShift_y = rnd (rnd (rat_of_nat ?ch - ?dh) / 2),
             dWidth = ?dw, dHeight = ?dh\<rparr>"
  have lo: "- (1 / 2 ^ 100) \<le> ?ratio"
    by (rule min_ratio_lower [OF assms(1,4,2,6,3)])
  have w: "?dw \<le> rat_of_nat ?cw + 1 / 2 ^ 20" "\<bar>?dw\<bar> \<le> 2 ^ 33"
    by (rule side_upper [OF assms(1,4,5,2) lo min.cobounded1])+
  have h: "?dh \<le> rat_of_nat ?ch + 1 / 2 ^ 20" "\<bar>?dh\<bar> \<le> 2 ^ 33"
    by (rule side_upper [OF assms(1,6,7,3) lo min.cobounded2])+
  have touch: "rat_of_nat ?cw - 1 / 2 ^ 20 \<le> ?dw \<or> rat_of_nat ?ch - 1 / 2 ^ 20 \<le> ?dh"
  proof (cases "?hRatio \<le> ?vRatio")
    case True
    then have "?ratio = ?hRatio" by (simp only: min_def if_True)
    with side_lower [OF assms(1,4,5,2)] show ?thesis by simp
  next
    case False
    then have "?ratio = ?vRatio" by (simp only: min_def if_False)
    with side_lower [OF assms(1,6,7,3)] show ?thesis by simp
  qed
  have "contain rnd c img = Some ?p"
    using assms(4,6) by (simp add: contain_def Let_def)
  with assms(8) have p: "p = ?p" by simp
  show ?thesis
  proof (intro conjI)
    show "dWidth p = ?dw" unfolding p by simp
    show "dHeight p = ?dh" unfolding p by simp
    show "dWidth p \<le> rat_of_nat ?cw + 1 / 2 ^ 20" unfolding p using w(1) by simp
    show "dHeight p \<le> rat_of_nat ?ch + 1 / 2 ^ 20" unfolding p using h(1) by simp
    show "rat_of_nat ?cw - 1 / 2 ^ 20 \<le> dWidth p \<or> rat_of_nat ?ch - 1 / 2 ^ 20 \<le> dHeight p"
      unfolding p using touch by simp
    show "\<bar>centerShift_x p - (rat_of_nat ?cw - (centerShift_x p + dWidth p))\<bar> \<le> 1"
      unfolding p using centred [OF assms(1,2) w(2)] by simp
    show "\<bar>centerShift_y p - (rat_of_nat ?ch - (centerShift_y p + dHeight p))\<bar> \<le> 1"
      unfolding p using centred [OF assms(1,3) h(2)] by simp
  qed
qed

text \<open>
  C5. For a source image that loads, with sides from 1 to \<open>2^32 - 1\<close> pixels, the
  compositor draws it scaled on both axes by the one ratio
  \<open>min (canvas width / source width) (canvas height / source height)\<close>. The drawn
  image fits the canvas and reaches it on one axis, both up to the rounding of the
  arithmetic (a millionth of a pixel), and it is centred: the padding before it and the
  padding after it differ by at most one pixel, horizontally and vertically.
\<close>

theorem compositor_fits_and_centres:
  assumes "ieee_double (rounding b)"
    and "getContext_2d b" and "image_load b imageDataUrl = Some img"
    and "0 < img_width img" and "img_width img < 2 ^ 32"
    and "0 < img_height img" and "img_height img < 2 ^ 32"
  shows "\<exists>c p. composite b imageDataUrl backgroundColor targetWidth = Inr c \<and>
           drawn c = Some (imageDataUrl, p) \<and>
           dWidth p = rounding b (rat_of_nat (img_width img) *
              min (rounding b (rat_of_nat (canvas_width c) / rat_of_nat (img_width img)))
                  (rounding b (rat_of_nat (canvas_height c) / rat_of_nat (img_height img)))) \<and>
           dHeight p = rounding b (rat_of_nat (img_height img) *
              min (rounding b (rat_of_nat (canvas_width c) / rat_of_nat (img_width img)))
                  (rounding b (rat_of_nat (canvas_height c) / rat_of_nat (img_height img)))) \<and>
           dWidth p \<le> rat_of_nat (canvas_width c) + 1 / 2 ^ 20 \<and>
           dHeight p \<le> rat_of_nat (canvas_height c) + 1 / 2 ^ 20 \<and>
           (rat_of_nat (canvas_width c) - 1 / 2 ^ 20 \<le> dWidth p \<or>
            rat_of_nat (canvas_height c) - 1 / 2 ^ 20 \<le> dHeight p) \<and>
           \<bar>centerShift_x p - (rat_of_nat (canvas_width c) - (centerShift_x p + dWidth p))\<bar> \<le> 1 \<and>
           \<bar>centerShift_y p - (rat_of_nat (canvas_height c) - (centerShift_y p + dHeight p))\<bar> \<le> 1"
proof -
  let ?blank = "new_canvas (rounding b) backgroundColor targetWidth"
  from assms(4,6) obtain p where p: "contain (rounding b) ?blank img = Some p"
    by (simp add: contain_def Let_def)
  let ?c = "?blank\<lparr>drawn := Some (imageDataUrl, p)\<rparr>"
  have c: "composite b imageDataUrl backgroundColor targetWidth = Inr ?c"
    using assms(2,3) p by (simp add: composite_def Let_def)
  have d: "drawn ?c = Some (imageDataUrl, p)" by simp
  have dims: "canvas_width ?c \<le> 2147483647" "canvas_height ?c \<le> 2147483647"
    using new_canvas_dims [of "rounding b" backgroundColor targetWidth] by simp_all
  have "contain (rounding b) ?c img = contain (rounding b) ?blank img"
    by (simp add: contain_def)
  with p have p': "contain (rounding b) ?c img = Some p" by simp
  from c d contain_fits [OF assms(1) dims assms(4-7) p']
  show ?thesis by blast
qed

text \<open>
  A square source of 1024 pixels on the default canvas of 1920 by 1080: it is drawn 1080
  pixels wide and high, 420 pixels from the left and from the right, at the top edge.
\<close>

theorem compositor_fits_and_centres_witness:
  "\<exists>c p. composite
          \<lparr>getContext_2d = True,
           image_load = (\<lambda>u. Some \<lparr>img_width = 1024, img_height = 1024\<rparr>),
           rounding = (\<lambda>x. x),
           toDataURL = (\<lambda>c. ''data:image/png;base64,AA=='')\<rparr>
          ''data:image/png;base64,iVBORw=='' ''#FFFFFF'' 1920 = Inr c \<and>
       drawn c = Some (''data:image/png;base64,iVBORw=='', p) \<and>
       \<bar>centerShift_x p - (rat_of_nat (canvas_width c) - (centerShift_x p + dWidth p))\<bar> \<le> 1 \<and>
       \<bar>centerShift_y p - (rat_of_nat (canvas_height c) - (centerShift_y p + dHeight p))\<bar> \<le> 1 \<and>
       dWidth p \<le> rat_of_nat (canvas_width c) + 1 / 2 ^ 20 \<and>
       dHeight p \<le> rat_of_nat (canvas_height c) + 1 / 2 ^ 20"
proof -
  let ?b = "\<lparr>getContext_2d = True,
             image_load = (\<lambda>u. Some \<lparr>img_width = 1024, img_height = 1024\<rparr>),
             rounding = (\<lambda>x. x),
             toDataURL = (\<lambda>c. ''data:image/png;base64,AA=='')\<rparr>"
  let ?img = "\<lparr>img_width = 1024, img_height = 1024\<rparr>"
  have 1: "ieee_double (rounding ?b)" by (simp add: ieee_double_identity)
  have 2: "getContext_2d ?b" by simp
  have 3: "image_load ?b ''data:image/png;base64,iVBORw=='' = Some ?img" by simp
  have 4: "0 < img_width ?img" "img_width ?img < 2 ^ 32" by simp_all
  have 5: "0 < img_height ?img" "img_height ?img < 2 ^ 32" by simp_all
  from compositor_fits_and_centres [OF 1 2 3 4 5, of "''#FFFFFF''" 1920]
  show ?thesis by blast
qed

section \<open>Properties of the orchestrator\<close>

subsection \<open>The invariant of the page\<close>

lemma generate_verified:
  assumes "generate w s f = (cs, Some (Inr v))"
  shows "truthLockStatus v = Verified"
  using assms
  by (auto simp: generate_def split: prod.splits option.splits sum.splits settled.splits)

lemma generate_updates_sound: "\<forall>u \<in> set (updates (handleGenerateVariants w s)). sound u"
  by (auto simp: handleGenerateVariants_def dest: generate_verified
      split: option.splits prod.splits sum.splits)

lemma tweak_updates_sound: "\<forall>u \<in> set (updates (handleApplyTweak w s i t)). sound u"
  by (auto simp: handleApplyTweak_def split: option.splits prod.splits sum.splits)

lemma tweak_updates_quiet: "\<forall>u \<in> set (updates (handleApplyTweak w s i t)). \<not> publishes u"
  by (auto simp: handleApplyTweak_def split: option.splits prod.splits sum.splits)

lemma export_updates: "\<forall>u \<in> set (updates (onExportPng w s i)). sound u \<and> \<not> publishes u"
  by (auto simp: onExportPng_def split: option.splits prod.splits sum.splits if_splits)

lemma handle_sound: "\<forall>u \<in> set (updates (handle w s e)). sound u"
proof (cases e)
  case (ImageUpload chosen)
  then show ?thesis by (auto simp: handleImageUpload_def split: option.splits)
next
  case ImproveSlide
  then show ?thesis
    using generate_updates_sound [of w s] tweak_updates_sound [of w s]
    by (auto simp: handleImproveSlide_def split: list.splits)
next
  case ExportPng
  then show ?thesis using export_updates [of w s] by (auto split: list.splits)
qed auto

lemma handle_quiet:
  assumes "originalImage s = None"
  shows "\<forall>u \<in> set (updates (handle w s e)). \<not> publishes u"
proof (cases e)
  case (ImageUpload chosen)
  then show ?thesis by (auto simp: handleImageUpload_def split: option.splits)
next
  case ImproveSlide
  then show ?thesis
    using assms tweak_updates_quiet [of w s]
    by (auto simp: handleImproveSlide_def handleGenerateVariants_def split: list.splits)
next
  case ExportPng
  then show ?thesis using export_updates [of w s] by (auto split: list.splits)
qed auto

lemma apply_update_store:
  assumes "length (variants s) \<le> 1" and "\<forall>v \<in> set (variants s). truthLockStatus v \<noteq> Verifying"
    and "sound u"
  shows "length (variants (apply_update u s)) \<le> 1"
    and "\<forall>v \<in> set (variants (apply_update u s)). truthLockStatus v \<noteq> Verifying"
  using assms by (cases u; auto)+

lemma apply_update_image:
  assumes "originalImage (apply_update u s) = None"
  shows "originalImage s = None"
  using assms by (cases u) auto

lemma apply_update_empty:
  assumes "variants s = []" and "\<not> publishes u"
  shows "variants (apply_update u s) = []"
  using assms by (cases u) auto

lemma reachable_invariant: "reachable s pending \<Longrightarrow> invariant s pending"
proof (induction rule: reachable.induct)
  case start
  show ?case by (simp add: invariant_def initial_def)
next
  case (dispatch s pending w e)
  then show ?case
    using handle_sound [of w s e] handle_quiet [of s w e]
    by (auto simp: invariant_def)
next
  case (commit s pending i u us)
  from commit.hyps(2,3) have mem: "u # us \<in> set pending" by (metis nth_mem)
  have sub: "set (pending[i := us]) \<subseteq> insert us (set pending)" by (rule set_update_subset_insert)
  from commit.IH mem have su: "sound u" by (auto simp: invariant_def)
  from commit.IH have st: "length (variants s) \<le> 1"
    "\<forall>v \<in> set (variants s). truthLockStatus v \<noteq> Verifying" by (auto simp: invariant_def)
  have snd: "\<forall>us' \<in> set (pending[i := us]). \<forall>u' \<in> set us'. sound u'"
    using commit.IH mem sub by (auto simp: invariant_def)
  have quiet: "variants (apply_update u s) = [] \<and>
      (\<forall>us' \<in> set (pending[i := us]). \<forall>u' \<in> set us'. \<not> publishes u')"
    if "originalImage (apply_update u s) = None"
  proof -
    from that have n: "originalImage s = None" by (rule apply_update_image)
    with commit.IH have e: "variants s = []"
      and q: "\<forall>us' \<in> set pending. \<forall>u' \<in> set us'. \<not> publishes u'" by (auto simp: invariant_def)
    from q mem have "\<not> publishes u" by auto
    with e have "variants (apply_update u s) = []" by (rule apply_update_empty)
    moreover have "\<forall>us' \<in> set (pending[i := us]). \<forall>u' \<in> set us'. \<not> publishes u'"
      using q mem sub by auto
    ultimately show ?thesis by simp
  qed
  show ?case
    unfolding invariant_def
    using apply_update_store [OF st su] snd quiet by blast
qed

text \<open>A flow that runs to its end with nothing in between is one way the page can go.\<close>

lemma reachable_commits:
  "reachable s (us # pending) \<Longrightarrow> reachable (apply_updates us s) ([] # pending)"
proof (induction us arbitrary: s)
  case Nil
  then show ?case by (simp add: apply_updates_def)
next
  case (Cons u us)
  from reachable.commit [OF Cons.prems, of 0 u us]
  have "reachable (apply_update u s) (us # pending)" by simp
  from Cons.IH [OF this] show ?case by (simp add: apply_updates_def)
qed

lemma reachable_after:
  "reachable s pending \<Longrightarrow> reachable (after (handle w s e) s) ([] # pending)"
  unfolding after_def by (rule reachable_commits) (rule reachable.dispatch)

subsection \<open>The fair world\<close>

lemma uploaded_eq: "uploaded = initial\<lparr>originalImage := Some roadmap_png\<rparr>"
  by (simp add: uploaded_def after_def handleImageUpload_def apply_updates_def initial_def)

lemma demo_structuredJson:
  assumes "map_of (DEMO_DATA w) (file_name f) = Some j"
  shows "structuredJson w f = ([], Some (Inr j))"
proof -
  from assms have "file_name f \<in> fst ` set (DEMO_DATA w)" by (metis map_of_eq_None_iff option.distinct(1))
  with assms show ?thesis by (simp add: structuredJson_def isDemoFile_def Object_keys_def)
qed

lemma loaded_processFinalImage:
  assumes "getContext_2d w" and "image_load w u = Some img"
  shows "\<exists>c. processFinalImage_default w u = Inr (toDataURL w c)"
  using assms by (auto simp: processFinalImage_default_def processFinalImage_def composite_def Let_def)

lemma title_and_image_both:
  "title_and_image te (response_with [title_part, image_part]) =
     Inr (title_part, \<lparr>mimeType = Some ''image/png'', data = Some ''iVBORw0KGgo=''\<rparr>)"
  by (simp add: title_and_image_def response_with_def response_parts_def title_part_def
      image_part_def has_text_def has_inlineData_def)

lemma fair_generate:
  "snd (generate fair_world s roadmap_png) = Some (Inr fair_variant)"
proof -
  have r: "Promise_race (generateContent fair_world) = Fulfilled (response_with [title_part, image_part])"
    by (simp add: Promise_race_def fair_world_def GENERATION_TIMEOUT_MS_def)
  have n: "new_GoogleGenAI fair_world = None"
    and u: "randomUUID fair_world = ''3b241101-e2bb-4255-8caf-4136c566a962''"
    by (simp_all add: fair_world_def)
  have "map_of (DEMO_DATA fair_world) (file_name roadmap_png) = Some DEMO_roadmap"
    by (simp add: fair_world_def roadmap_png_def)
  then have j: "structuredJson fair_world roadmap_png = ([], Some (Inr DEMO_roadmap))"
    by (rule demo_structuredJson)
  have p: "processFinalImage_default fair_world url = Inr ''data:image/png;base64,Q0FOVkFT''" for url
    by (simp add: processFinalImage_default_def processFinalImage_def composite_def fair_world_def Let_def)
  show ?thesis
    by (simp add: generate_def j n r u p title_and_image_both data_url_def interpolate_def fair_variant_def)
qed

lemma fair_generated: "generated fair_world (s\<lparr>originalImage := Some roadmap_png\<rparr>) = Some fair_variant"
  by (simp add: generated_def fair_generate)

lemma ready_eq: "ready = initial\<lparr>originalImage := Some roadmap_png, variants := [fair_variant]\<rparr>"
proof -
  obtain cs where "generate fair_world uploaded roadmap_png = (cs, Some (Inr fair_variant))"
    using fair_generate [of uploaded] by (cases "generate fair_world uploaded roadmap_png") simp
  then show ?thesis
    by (simp add: ready_def after_def handleImproveSlide_def handleGenerateVariants_def
        apply_updates_def uploaded_eq initial_def)
qed

lemma reachable_uploaded: "reachable uploaded [[]]"
  unfolding uploaded_def by (rule reachable_after) (rule reachable.start)

lemma reachable_ready: "reachable ready [[], []]"
  unfolding ready_def by (rule reachable_after) (rule reachable_uploaded)

subsection \<open>The variant store\<close>

lemma generate_ignores_variants: "generate w (s\<lparr>variants := vs\<rparr>) f = generate w s f"
  by (simp add: generate_def split: prod.splits option.splits sum.splits)

lemma generated_ignores_variants: "generated w (s\<lparr>variants := vs\<rparr>) = generated w s"
  by (simp add: generated_def generate_ignores_variants split: option.splits)

lemma generated_verified:
  assumes "generated w s = Some v"
  shows "truthLockStatus v = Verified"
proof (cases "originalImage s")
  case None
  with assms show ?thesis by (simp add: generated_def)
next
  case (Some f)
  obtain cs r where g: "generate w s f = (cs, r)" by (cases "generate w s f")
  with assms Some have "r = Some (Inr v)"
    by (auto simp: generated_def split: option.splits sum.splits)
  with g show ?thesis by (auto dest: generate_verified)
qed

lemma generation_variants:
  assumes "originalImage s = None \<longrightarrow> variants s = []"
  shows "variants (after (handleGenerateVariants w s) s) =
           (case generated w s of None \<Rightarrow> [] | Some v \<Rightarrow> [v])"
proof (cases "originalImage s")
  case None
  with assms show ?thesis
    by (simp add: handleGenerateVariants_def generated_def after_def apply_updates_def)
next
  case (Some f)
  obtain cs r where g: "generate w s f = (cs, r)" by (cases "generate w s f")
  show ?thesis
    using Some g
    by (auto simp: handleGenerateVariants_def generated_def after_def apply_updates_def
        split: option.splits sum.splits)
qed

text \<open>
  C9. However the flows of the page interleave, the session holds at most one variant.
  A generation run leaves the one variant it built, or none: the variants that were there
  before are not kept, and they have no part in what is built.
\<close>

theorem single_variant_store:
  assumes "reachable s pending"
  shows "length (variants s) \<le> 1 \<and>
         variants (after (handleGenerateVariants w s) s) =
           (case generated w s of None \<Rightarrow> [] | Some v \<Rightarrow> [v]) \<and>
         generated w (s\<lparr>variants := vs\<rparr>) = generated w s"
proof -
  from reachable_invariant [OF assms]
  have "length (variants s) \<le> 1" and "originalImage s = None \<longrightarrow> variants s = []"
    by (simp_all add: invariant_def)
  then show ?thesis
    by (simp add: generation_variants generated_ignores_variants)
qed

text \<open>
  With a variant in the session, a second generation leaves the new variant alone.
\<close>

theorem single_variant_store_witness:
  "length (variants ready) \<le> 1 \<and>
   variants ready = [fair_variant] \<and>
   variants (after (handleGenerateVariants (fair_world\<lparr>randomUUID := ''9f1c2d3e-0000-4000-8000-000000000001''\<rparr>) ready) ready) =
     [fair_variant\<lparr>variant_id := ''9f1c2d3e-0000-4000-8000-000000000001''\<rparr>]"
proof -
  let ?w = "fair_world\<lparr>randomUUID := ''9f1c2d3e-0000-4000-8000-000000000001''\<rparr>"
  have g: "generated ?w ready = Some (fair_variant\<lparr>variant_id := ''9f1c2d3e-0000-4000-8000-000000000001''\<rparr>)"
    by (simp add: generated_def generate_def ready_eq demo_structuredJson Promise_race_def
        GENERATION_TIMEOUT_MS_def fair_world_def roadmap_png_def title_and_image_both
        processFinalImage_default_def processFinalImage_def composite_def Let_def
        data_url_def interpolate_def fair_variant_def)
  from single_variant_store [OF reachable_ready, of ?w] g
  show ?thesis by (simp add: ready_eq)
qed

text \<open>
  C10. However the flows of the page interleave, every variant in the session is verified
  or modified, never verifying: a generation builds a verified variant, and the update of
  an edit leaves every variant verified or modified.
\<close>

theorem published_status:
  assumes "reachable s pending"
  shows "(\<forall>v \<in> set (variants s). truthLockStatus v = Verified \<or> truthLockStatus v = Modified) \<and>
         (case generated w s of None \<Rightarrow> True | Some v \<Rightarrow> truthLockStatus v = Verified) \<and>
         (\<forall>v \<in> set (variants (apply_update (TweakVariants variantId newSource newDisplay) s)).
            truthLockStatus v = Verified \<or> truthLockStatus v = Modified)"
proof -
  have vm: "st = Verified \<or> st = Modified" if "st \<noteq> Verifying" for st
    using that by (cases st) simp_all
  from reachable_invariant [OF assms]
  have 1: "\<forall>v \<in> set (variants s). truthLockStatus v \<noteq> Verifying" by (simp add: invariant_def)
  then have a: "\<forall>v \<in> set (variants s). truthLockStatus v = Verified \<or> truthLockStatus v = Modified"
    using vm by blast
  have b: "case generated w s of None \<Rightarrow> True | Some v \<Rightarrow> truthLockStatus v = Verified"
    by (auto split: option.splits dest: generated_verified)
  from a have c: "\<forall>v \<in> set (variants (apply_update (TweakVariants variantId newSource newDisplay) s)).
            truthLockStatus v = Verified \<or> truthLockStatus v = Modified"
    by auto
  from a b c show ?thesis by blast
qed

text \<open>The session after a generation holds one variant, which is verified.\<close>

theorem published_status_witness:
  "variants ready = [fair_variant] \<and> map truthLockStatus (variants ready) = [Verified]"
proof -
  have r: "variants ready = [fair_variant]" by (simp add: ready_eq)
  from published_status [OF reachable_ready, of fair_world]
  have "truthLockStatus fair_variant = Verified \<or> truthLockStatus fair_variant = Modified"
    by (simp add: r)
  moreover have "truthLockStatus fair_variant \<noteq> Modified" by (simp add: fair_variant_def)
  ultimately show ?thesis by (simp add: r)
qed

subsection \<open>The generation flow publishes all or nothing\<close>

lemma generate_consistent:
  assumes "generate w s f = (cs, Some (Inr v))"
  shows "processFinalImage_default w (sourceGraphicUrl v) = Inr (displayImageUrl v)"
  using assms
  by (auto simp: generate_def split: prod.splits option.splits sum.splits settled.splits)

lemma silent_generate:
  "snd (generate silent_world s roadmap_png) =
     Some (Inl (Error ''Generation timed out. The request took too long, please try again.''))"
proof -
  have "map_of (DEMO_DATA silent_world) (file_name roadmap_png) = Some DEMO_roadmap"
    by (simp add: silent_world_def fair_world_def roadmap_png_def)
  then have "structuredJson silent_world roadmap_png = ([], Some (Inr DEMO_roadmap))"
    by (rule demo_structuredJson)
  then show ?thesis
    by (simp add: generate_def Promise_race_def silent_world_def fair_world_def)
qed

text \<open>
  C6. In every session the page can reach, a generation run either builds a variant or
  does not. If it does, the run ends, and it leaves exactly that variant, verified, whose
  display image is the composite of its raw image, with no error and the loading flag
  cleared. If it does not (no image was chosen, the extraction failed or never returned,
  the generator timed out or was rejected, the response lacked a part, the compositor
  failed), it leaves no variant, and it ends exactly when it leaves an error message. In
  every state the run passes through, the variants are those from before the run, or none,
  or those of the end: nothing partial is ever set.
\<close>

theorem generation_all_or_nothing:
  assumes "reachable s pending"
  shows "(case generated w s of
            Some v \<Rightarrow>
              finished (handleGenerateVariants w s) \<and>
              variants (after (handleGenerateVariants w s) s) = [v] \<and>
              error (after (handleGenerateVariants w s) s) = None \<and>
              \<not> isLoading (after (handleGenerateVariants w s) s) \<and>
              truthLockStatus v = Verified \<and>
              processFinalImage_default w (sourceGraphicUrl v) = Inr (displayImageUrl v)
          | None \<Rightarrow>
              variants (after (handleGenerateVariants w s) s) = [] \<and>
              finished (handleGenerateVariants w s) =
                (error (after (handleGenerateVariants w s) s) \<noteq> None)) \<and>
         (\<forall>st \<in> set (states (updates (handleGenerateVariants w s)) s).
            variants st = variants s \<or> variants st = [] \<or>
            variants st = variants (after (handleGenerateVariants w s) s))"
proof (cases "originalImage s")
  case None
  with reachable_invariant [OF assms] have "variants s = []" by (simp add: invariant_def)
  with None show ?thesis
    by (simp add: handleGenerateVariants_def generated_def after_def apply_updates_def)
next
  case (Some f)
  obtain cs r where g: "generate w s f = (cs, r)" by (cases "generate w s f")
  show ?thesis
  proof (cases r)
    case None
    with Some g show ?thesis
      by (simp add: handleGenerateVariants_def generated_def after_def apply_updates_def)
  next
    case outcome: (Some res)
    show ?thesis
    proof (cases res)
      case (Inl e)
      with Some g outcome show ?thesis
        by (simp add: handleGenerateVariants_def generated_def after_def apply_updates_def)
    next
      case (Inr v)
      with g outcome have gv: "generate w s f = (cs, Some (Inr v))" by simp
      from generate_verified [OF gv] generate_consistent [OF gv] Some gv show ?thesis
        by (simp add: handleGenerateVariants_def generated_def after_def apply_updates_def)
    qed
  qed
qed

text \<open>
  In the fair world the run after the upload publishes the variant, and every state on the
  way holds no variant or that one. When the generator never answers, a run on the session
  that holds this variant leaves none, and an error.
\<close>

theorem generation_all_or_nothing_witness:
  "variants (after (handleGenerateVariants fair_world uploaded) uploaded) = [fair_variant] \<and>
   map variants (states (updates (handleGenerateVariants fair_world uploaded)) uploaded) =
     [[], [], [], [], [], [fair_variant], [fair_variant]] \<and>
   variants ready = [fair_variant] \<and>
   variants (after (handleGenerateVariants silent_world ready) ready) = [] \<and>
   error (after (handleGenerateVariants silent_world ready) ready) \<noteq> None"
proof -
  have u: "generated fair_world uploaded = Some fair_variant"
    unfolding uploaded_eq by (rule fair_generated)
  from generation_all_or_nothing [OF reachable_uploaded, of fair_world]
  have 1: "variants (after (handleGenerateVariants fair_world uploaded) uploaded) = [fair_variant]"
    unfolding u by simp
  obtain cs where "generate fair_world uploaded roadmap_png = (cs, Some (Inr fair_variant))"
    using fair_generate [of uploaded] by (cases "generate fair_world uploaded roadmap_png") simp
  then have 2: "map variants (states (updates (handleGenerateVariants fair_world uploaded)) uploaded) =
     [[], [], [], [], [], [fair_variant], [fair_variant]]"
    by (simp add: handleGenerateVariants_def uploaded_eq initial_def)
  have r: "variants ready = [fair_variant]" by (simp add: ready_eq)
  have n: "generated silent_world ready = None"
    by (simp add: generated_def ready_eq silent_generate)
  have f: "finished (handleGenerateVariants silent_world ready)"
    using silent_generate [of ready]
    by (cases "generate silent_world ready roadmap_png")
       (simp add: handleGenerateVariants_def ready_eq)
  from generation_all_or_nothing [OF reachable_ready, of silent_world]
  have 3: "variants (after (handleGenerateVariants silent_world ready) ready) = []"
    and 4: "error (after (handleGenerateVariants silent_world ready) ready) \<noteq> None"
    unfolding n using f by simp_all
  from 1 2 r 3 4 show ?thesis by blast
qed

subsection \<open>The edit flow\<close>

lemma match_data_url_png:
  "match_data_url ''data:image/png;base64,iVBORw0KGgo='' = Some (''image/png'', ''iVBORw0KGgo='')"
  by code_simp

lemma tweaked_run:
  assumes "tweaked w s variantId tweakText = Some (newSource, newDisplay)"
  shows "updates (handleApplyTweak w s variantId tweakText) =
           [SetIsTweaking True, SetError None, TweakVariants variantId newSource newDisplay,
            SetIsTweaking False]"
    and "finished (handleApplyTweak w s variantId tweakText)"
    and "\<exists>v \<in> set (variants s). variant_id v = variantId"
proof -
  from assms obtain v where f: "find (\<lambda>v. variant_id v = variantId) (variants s) = Some v"
    by (auto simp: tweaked_def split: option.splits)
  obtain cs r where t: "tweak w v tweakText = (cs, r)" by (cases "tweak w v tweakText")
  with assms f have r: "r = Some (Inr (newSource, newDisplay))"
    by (auto simp: tweaked_def split: option.splits sum.splits)
  from f t r show "updates (handleApplyTweak w s variantId tweakText) =
           [SetIsTweaking True, SetError None, TweakVariants variantId newSource newDisplay,
            SetIsTweaking False]"
    and "finished (handleApplyTweak w s variantId tweakText)"
    by (simp_all add: handleApplyTweak_def)
  from f show "\<exists>v \<in> set (variants s). variant_id v = variantId"
    by (auto simp: find_Some_iff)
qed


lemma tweaked_after:
  assumes "tweaked w s variantId tweakText = Some (newSource, newDisplay)"
  shows "after (handleApplyTweak w s variantId tweakText) s =
           s\<lparr>variants :=
               map (\<lambda>v. if variant_id v = variantId
                         then v\<lparr>sourceGraphicUrl := newSource, displayImageUrl := newDisplay,
                                truthLockStatus := Modified\<rparr>
                         else v) (variants s),
             isTweaking := False, error := None\<rparr>"
  by (simp add: after_def apply_updates_def tweaked_run(1) [OF assms])

lemma tweak_map_keeps:
  assumes "\<exists>v \<in> set vs. variant_id v = i"
  shows "\<exists>v \<in> set (map (\<lambda>v. if variant_id v = i
                         then v\<lparr>sourceGraphicUrl := a, displayImageUrl := b,
                                truthLockStatus := Modified\<rparr>
                         else v) vs). variant_id v = i"
proof -
  from assms obtain v where v: "v \<in> set vs" "variant_id v = i" by blast
  let ?f = "\<lambda>v. if variant_id v = i
                         then v\<lparr>sourceGraphicUrl := a, displayImageUrl := b,
                                truthLockStatus := Modified\<rparr>
                         else v"
  from v(1) have "?f v \<in> set (map ?f vs)" by (simp only: set_map) (rule imageI)
  moreover from v(2) have "variant_id (?f v) = i" by simp
  ultimately show ?thesis by blast
qed

lemma tweak_map_modified:
  "\<forall>v \<in> set (map (\<lambda>v. if variant_id v = i
                         then v\<lparr>sourceGraphicUrl := a, displayImageUrl := b,
                                truthLockStatus := Modified\<rparr>
                         else v) vs). variant_id v = i \<longrightarrow> truthLockStatus v = Modified"
proof (intro ballI impI)
  fix v
  assume "v \<in> set (map (\<lambda>v. if variant_id v = i
                         then v\<lparr>sourceGraphicUrl := a, displayImageUrl := b,
                                truthLockStatus := Modified\<rparr>
                         else v) vs)" and i: "variant_id v = i"
  then obtain u where "u \<in> set vs" and v: "v = (if variant_id u = i
                         then u\<lparr>sourceGraphicUrl := a, displayImageUrl := b,
                                truthLockStatus := Modified\<rparr>
                         else u)" by (auto simp only: set_map)
  show "truthLockStatus v = Modified"
  proof (cases "variant_id u = i")
    case True
    with v show ?thesis by simp
  next
    case False
    with v i show ?thesis by simp
  qed
qed

lemma tweaked_variants:
  assumes "tweaked w s variantId tweakText = Some (newSource, newDisplay)"
  shows "variants (after (handleApplyTweak w s variantId tweakText) s) =
           map (\<lambda>v. if variant_id v = variantId
                     then v\<lparr>sourceGraphicUrl := newSource, displayImageUrl := newDisplay,
                            truthLockStatus := Modified\<rparr>
                     else v) (variants s)"
  by (simp add: tweaked_after [OF assms])

lemma fair_tweaked:
  assumes "find (\<lambda>v. variant_id v = variantId) (variants s) = Some v"
    and "sourceGraphicUrl v = ''data:image/png;base64,iVBORw0KGgo=''"
  shows "tweaked fair_world s variantId tweakText =
           Some (''data:image/png;base64,iVBORw0KGgo='', ''data:image/png;base64,Q0FOVkFT'')"
proof -
  have p: "processFinalImage_default fair_world url = Inr ''data:image/png;base64,Q0FOVkFT''" for url
    by (simp add: processFinalImage_default_def processFinalImage_def composite_def fair_world_def Let_def)
  have r: "response_imagePart (response_with [image_part]) = Some image_part"
    by (simp add: response_imagePart_def response_with_def response_parts_def image_part_def
        has_inlineData_def)
  have a: "await (tweak_generateContent fair_world) = Some (Fulfilled (response_with [image_part]))"
    and n: "new_GoogleGenAI fair_world = None"
    by (simp_all add: await_def fair_world_def)
  have d: "data_url \<lparr>mimeType = Some ''image/png'', data = Some ''iVBORw0KGgo=''\<rparr> =
      ''data:image/png;base64,iVBORw0KGgo=''"
    by (simp add: data_url_def interpolate_def)
  have i: "inlineData image_part = Some \<lparr>mimeType = Some ''image/png'', data = Some ''iVBORw0KGgo=''\<rparr>"
    by (simp add: image_part_def)
  show ?thesis
    by (simp add: tweaked_def tweak_def assms match_data_url_png n a r i d p)
qed

text \<open>
  C7. An edit that obtains its images leaves the variant it names in the session with the
  status modified, whatever the status was before; a further such edit of the same variant
  finds it modified and leaves it modified.
\<close>

theorem edit_sets_modified:
  assumes "tweaked w s variantId tweakText = Some images"
    and "tweaked w' (after (handleApplyTweak w s variantId tweakText) s) variantId tweakText' = Some images'"
  shows "let s1 = after (handleApplyTweak w s variantId tweakText) s;
             s2 = after (handleApplyTweak w' s1 variantId tweakText') s1
         in (\<exists>v \<in> set (variants s1). variant_id v = variantId) \<and>
            (\<forall>v \<in> set (variants s1). variant_id v = variantId \<longrightarrow> truthLockStatus v = Modified) \<and>
            (\<exists>v \<in> set (variants s2). variant_id v = variantId) \<and>
            (\<forall>v \<in> set (variants s2). variant_id v = variantId \<longrightarrow> truthLockStatus v = Modified)"
proof -
  define s1 where "s1 = after (handleApplyTweak w s variantId tweakText) s"
  define s2 where "s2 = after (handleApplyTweak w' s1 variantId tweakText') s1"
  obtain a b where i: "images = (a, b)" by (cases images)
  obtain a' b' where i': "images' = (a', b')" by (cases images')
  from assms(1) i have t1: "tweaked w s variantId tweakText = Some (a, b)" by simp
  from assms(2) i' have t2: "tweaked w' s1 variantId tweakText' = Some (a', b')"
    by (simp add: s1_def)
  note v1 = tweaked_variants [OF t1, folded s1_def]
  note v2 = tweaked_variants [OF t2, folded s2_def]
  have e1: "\<exists>v \<in> set (variants s1). variant_id v = variantId"
    by (subst v1, rule tweak_map_keeps, rule tweaked_run(3) [OF t1])
  have m1: "\<forall>v \<in> set (variants s1). variant_id v = variantId \<longrightarrow> truthLockStatus v = Modified"
    by (subst v1, rule tweak_map_modified)
  have e2: "\<exists>v \<in> set (variants s2). variant_id v = variantId"
    by (subst v2, rule tweak_map_keeps, rule e1)
  have m2: "\<forall>v \<in> set (variants s2). variant_id v = variantId \<longrightarrow> truthLockStatus v = Modified"
    by (subst v2, rule tweak_map_modified)
  from e1 m1 e2 m2 show ?thesis unfolding Let_def s1_def [symmetric] s2_def [symmetric] by blast
qed


text \<open>
  In the fair world, the verified variant of the session is modified after one edit and
  after a second one.
\<close>

theorem edit_sets_modified_witness:
  "map truthLockStatus (variants ready) = [Verified] \<and>
   (let s1 = after (handleApplyTweak fair_world ready ''3b241101-e2bb-4255-8caf-4136c566a962''
                     ''Make the bars blue'') ready;
        s2 = after (handleApplyTweak fair_world s1 ''3b241101-e2bb-4255-8caf-4136c566a962''
                     ''Use a serif font'') s1
    in map truthLockStatus (variants s1) = [Modified] \<and>
       map truthLockStatus (variants s2) = [Modified])"
proof -
  let ?i = "''3b241101-e2bb-4255-8caf-4136c566a962''"
  let ?u = "''data:image/png;base64,iVBORw0KGgo=''"
  have r: "variants ready = [fair_variant]" by (simp add: ready_eq)
  have f: "find (\<lambda>v. variant_id v = ?i) (variants ready) = Some fair_variant"
    by (simp add: r fair_variant_def)
  have u: "sourceGraphicUrl fair_variant = ?u" by (simp add: fair_variant_def)
  note t1 = fair_tweaked [OF f u, of "''Make the bars blue''"]
  define s1 where "s1 = after (handleApplyTweak fair_world ready ?i ''Make the bars blue'') ready"
  define s2 where "s2 = after (handleApplyTweak fair_world s1 ?i ''Use a serif font'') s1"
  obtain x where v1: "variants s1 = [x]" and x: "variant_id x = ?i" "sourceGraphicUrl x = ?u"
    by (simp add: s1_def tweaked_variants [OF t1] r fair_variant_def)
  have f1: "find (\<lambda>v. variant_id v = ?i) (variants s1) = Some x"
    by (simp add: v1 x)
  note t2 = fair_tweaked [OF f1 x(2), of "''Use a serif font''"]
  obtain y where v2: "variants s2 = [y]" and y: "variant_id y = ?i"
    by (simp add: s2_def tweaked_variants [OF t2] v1 x)
  from edit_sets_modified [OF t1 t2 [unfolded s1_def]]
  have "(\<forall>v \<in> set (variants s1). variant_id v = ?i \<longrightarrow> truthLockStatus v = Modified) \<and>
        (\<forall>v \<in> set (variants s2). variant_id v = ?i \<longrightarrow> truthLockStatus v = Modified)"
    unfolding Let_def s1_def [symmetric] s2_def [symmetric] by blast
  with v1 x(1) v2 y have "map truthLockStatus (variants s1) = [Modified]"
    and "map truthLockStatus (variants s2) = [Modified]" by simp_all
  moreover have "map truthLockStatus (variants ready) = [Verified]"
    by (simp add: r fair_variant_def)
  ultimately show ?thesis unfolding Let_def s1_def [symmetric] s2_def [symmetric] by blast
qed






subsection \<open>The generation flow after the extraction\<close>

lemma generate_reaches:
  assumes "structuredJson w f = (cs, Some (Inr structured))" and "new_GoogleGenAI w = None"
  shows "generate w s f =
     (cs @ [GenerateContent ''gemini-2.5-flash-image-preview''
              [\<lparr>part_text = Some (finalPrompt w (stylePreset s) structured), inlineData = None\<rparr>]],
      Some (case Promise_race (generateContent w) of
              Rejected e \<Rightarrow> Inl e
            | Fulfilled response \<Rightarrow>
                (case title_and_image (typeError w) response of
                   Inl e \<Rightarrow> Inl e
                 | Inr (textPartResponse, blob) \<Rightarrow>
                     (case processFinalImage_default w (data_url blob) of
                        Inl e \<Rightarrow> Inl e
                      | Inr processed \<Rightarrow>
                          Inr \<lparr>variant_id = randomUUID w,
                               sourceGraphicUrl = data_url blob,
                               displayImageUrl = processed,
                               truthLockStatus = Verified\<rparr>))))"
  using assms by (simp add: generate_def)

lemma generate_thrown:
  assumes "originalImage s = Some f" and "generate w s f = (cs, Some (Inl (Error m)))" and "m \<noteq> []"
  shows "handleGenerateVariants w s =
           \<lparr>updates = [SetIsLoading True, SetCompareOn False, SetError None, SetVariants [],
                       SetError (Some m), SetIsLoading False],
            calls = cs, finished = True\<rparr>"
  using assms by (simp add: handleGenerateVariants_def)

lemma late_race:
  assumes "\<not> settles_within GENERATION_TIMEOUT_MS p"
  shows "Promise_race p =
           Rejected (Error ''Generation timed out. The request took too long, please try again.'')"
  using assms by (auto simp: settles_within_def Promise_race_def split: option.splits)

lemma runOcrOnImage_generateContent:
  "runOcrOnImage (w\<lparr>generateContent := g\<rparr>) f = runOcrOnImage w f"
  by (simp add: runOcrOnImage_def split: option.splits sum.splits settled.splits)

lemma structuredJson_generateContent:
  "structuredJson (w\<lparr>generateContent := g\<rparr>) f = structuredJson w f"
  by (simp add: structuredJson_def isDemoFile_def runOcrOnImage_generateContent
      split: prod.splits option.splits sum.splits)

lemma finalPrompt_generateContent:
  "finalPrompt (w\<lparr>generateContent := g\<rparr>) p j = finalPrompt w p j"
  by (simp add: finalPrompt_def)

text \<open>
  C2. The timeout of the generation flow is 60000 milliseconds. When a run reaches the
  generator (an image is chosen, the extraction gave a description, the client was made)
  and the generator does not settle within the timeout, the run ends with the timeout
  message as its error, no variant and the loading flag cleared, and none of its updates
  publishes a variant; the run is the very run of a world in which the generator never
  answers, so an answer that comes later changes nothing.
\<close>

theorem generation_timeout:
  assumes "originalImage s = Some f"
    and "structuredJson w f = (cs, Some (Inr structured))" and "new_GoogleGenAI w = None"
    and "\<not> settles_within GENERATION_TIMEOUT_MS (generateContent w)"
  shows "GENERATION_TIMEOUT_MS = 60000 \<and>
         (let run = handleGenerateVariants w s; final = after run s
          in finished run \<and>
             error final = Some ''Generation timed out. The request took too long, please try again.'' \<and>
             variants final = [] \<and> \<not> isLoading final \<and>
             (\<forall>u \<in> set (updates run). \<not> publishes u) \<and>
             run = handleGenerateVariants (w\<lparr>generateContent := None\<rparr>) s)"
proof -
  let ?m = "''Generation timed out. The request took too long, please try again.''"
  let ?cs = "cs @ [GenerateContent ''gemini-2.5-flash-image-preview''
              [\<lparr>part_text = Some (finalPrompt w (stylePreset s) structured), inlineData = None\<rparr>]]"
  let ?run = "\<lparr>updates = [SetIsLoading True, SetCompareOn False, SetError None, SetVariants [],
                       SetError (Some ?m), SetIsLoading False],
            calls = ?cs, finished = True\<rparr>"
  have g: "generate w s f = (?cs, Some (Inl (Error ?m)))"
    by (simp add: generate_reaches [OF assms(2,3)] late_race [OF assms(4)])
  have r: "handleGenerateVariants w s = ?run"
    by (rule generate_thrown [OF assms(1) g]) simp
  let ?w = "w\<lparr>generateContent := None\<rparr>"
  have "structuredJson ?w f = (cs, Some (Inr structured))"
    by (simp add: structuredJson_generateContent assms(2))
  moreover have "new_GoogleGenAI ?w = None" using assms(3) by simp
  ultimately have "generate ?w s f = (?cs, Some (Inl (Error ?m)))"
    by (simp add: generate_reaches finalPrompt_generateContent Promise_race_def)
  with assms(1) have r': "handleGenerateVariants ?w s = ?run"
    by (intro generate_thrown) simp_all
  show ?thesis
    unfolding Let_def r' unfolding r
    by (simp add: GENERATION_TIMEOUT_MS_def after_def apply_updates_def)
qed

text \<open>
  The generator answers after 61 seconds, with a title and an image: the run ends in the
  timeout error, and the session holds no variant.
\<close>

theorem generation_timeout_witness:
  "\<not> settles_within GENERATION_TIMEOUT_MS (generateContent late_world) \<and>
   (let run = handleGenerateVariants late_world uploaded; final = after run uploaded
    in finished run \<and>
       error final = Some ''Generation timed out. The request took too long, please try again.'' \<and>
       variants final = [] \<and>
       run = handleGenerateVariants (late_world\<lparr>generateContent := None\<rparr>) uploaded)"
proof -
  have 1: "originalImage uploaded = Some roadmap_png" by (simp add: uploaded_eq)
  have "map_of (DEMO_DATA late_world) (file_name roadmap_png) = Some DEMO_roadmap"
    by (simp add: late_world_def fair_world_def roadmap_png_def)
  then have 2: "structuredJson late_world roadmap_png = ([], Some (Inr DEMO_roadmap))"
    by (rule demo_structuredJson)
  have 3: "new_GoogleGenAI late_world = None" by (simp add: late_world_def fair_world_def)
  have 4: "\<not> settles_within GENERATION_TIMEOUT_MS (generateContent late_world)"
    by (simp add: settles_within_def GENERATION_TIMEOUT_MS_def late_world_def)
  from generation_timeout [OF 1 2 3 4] 4 show ?thesis unfolding Let_def by blast
qed

subsection \<open>The shape of the response\<close>

lemma title_and_image_lacking:
  assumes "lacks_title response \<or> lacks_image response"
  shows "title_and_image te response =
           Inl (Error (if length (parts_of response) < 2
                       then ''Sorry, the model didn't return both a title and an image. Please try again.''
                       else ''The model response was missing either the text or image part.''))"
proof (cases "response_parts response")
  case None
  then show ?thesis by (simp add: title_and_image_def parts_of_def)
next
  case (Some ps)
  with assms have "find has_text ps = None \<or> find has_inlineData ps = None"
    by (simp add: lacks_title_def lacks_image_def parts_of_def)
  with Some show ?thesis
    by (auto simp: title_and_image_def parts_of_def split: option.splits)
qed

text \<open>
  C1, as the code has it. When a run reaches the generator and the response in time has
  no text part or no image part, the run ends in an error with no variant. The message is
  chosen by the number of parts, not by which part is missing: the message that the model
  did not return both for a response with fewer than two parts, the message that a part
  is missing for a response with two parts or more. The two messages differ.
\<close>

theorem response_shape_error:
  assumes "originalImage s = Some f"
    and "structuredJson w f = (cs, Some (Inr structured))" and "new_GoogleGenAI w = None"
    and "generateContent w = Some (ms, Fulfilled response)" and "ms \<le> GENERATION_TIMEOUT_MS"
    and "lacks_title response \<or> lacks_image response"
  shows "(let run = handleGenerateVariants w s; final = after run s
          in finished run \<and> variants final = [] \<and> \<not> isLoading final \<and>
             (\<forall>u \<in> set (updates run). \<not> publishes u) \<and>
             error final =
               Some (if length (parts_of response) < 2
                     then ''Sorry, the model didn't return both a title and an image. Please try again.''
                     else ''The model response was missing either the text or image part.'')) \<and>
         ''Sorry, the model didn't return both a title and an image. Please try again.'' \<noteq>
         ''The model response was missing either the text or image part.''"
proof -
  let ?m = "if length (parts_of response) < 2
            then ''Sorry, the model didn't return both a title and an image. Please try again.''
            else ''The model response was missing either the text or image part.''"
  let ?cs = "cs @ [GenerateContent ''gemini-2.5-flash-image-preview''
              [\<lparr>part_text = Some (finalPrompt w (stylePreset s) structured), inlineData = None\<rparr>]]"
  have "Promise_race (generateContent w) = Fulfilled response"
    using assms(4,5) by (simp add: Promise_race_def)
  then have g: "generate w s f = (?cs, Some (Inl (Error ?m)))"
    by (simp add: generate_reaches [OF assms(2,3)] title_and_image_lacking [OF assms(6)])
  have "?m \<noteq> []" by simp
  from generate_thrown [OF assms(1) g this] show ?thesis
    unfolding Let_def by (simp add: after_def apply_updates_def)
qed

text \<open>
  The generator answers with an image and no title, a single part: the run ends with the
  message that the model did not return both, and no variant.
\<close>

theorem response_shape_error_witness:
  "lacks_title (response_with [image_part]) \<and> \<not> lacks_image (response_with [image_part]) \<and>
   (let run = handleGenerateVariants untitled_world uploaded; final = after run uploaded
    in finished run \<and> variants final = [] \<and>
       error final =
         Some ''Sorry, the model didn't return both a title and an image. Please try again.'')"
proof -
  have 1: "originalImage uploaded = Some roadmap_png" by (simp add: uploaded_eq)
  have "map_of (DEMO_DATA untitled_world) (file_name roadmap_png) = Some DEMO_roadmap"
    by (simp add: untitled_world_def fair_world_def roadmap_png_def)
  then have 2: "structuredJson untitled_world roadmap_png = ([], Some (Inr DEMO_roadmap))"
    by (rule demo_structuredJson)
  have 3: "new_GoogleGenAI untitled_world = None" by (simp add: untitled_world_def fair_world_def)
  have 4: "generateContent untitled_world = Some (8000, Fulfilled (response_with [image_part]))"
    by (simp add: untitled_world_def)
  have 5: "(8000::nat) \<le> GENERATION_TIMEOUT_MS" by (simp add: GENERATION_TIMEOUT_MS_def)
  have t: "lacks_title (response_with [image_part])"
    and i: "\<not> lacks_image (response_with [image_part])"
    and n: "length (parts_of (response_with [image_part])) < 2"
    by (simp_all add: lacks_title_def lacks_image_def parts_of_def response_with_def
        response_parts_def image_part_def has_text_def has_inlineData_def)
  from t have 6: "lacks_title (response_with [image_part]) \<or> lacks_image (response_with [image_part])" ..
  from response_shape_error [OF 1 2 3 4 5 6] t i n show ?thesis
    unfolding Let_def by simp
qed

text \<open>
  C1, as the specification has it, fails: a response that lacks only the title and a
  response that lacks both parts end the run with the same message.
\<close>

theorem response_shape_messages_counterexample:
  "lacks_title (response_with [image_part]) \<and> \<not> lacks_image (response_with [image_part]) \<and>
   lacks_title (response_with []) \<and> lacks_image (response_with []) \<and>
   error (after (handleGenerateVariants untitled_world uploaded) uploaded) =
   error (after (handleGenerateVariants empty_world uploaded) uploaded)"
proof -
  let ?m = "''Sorry, the model didn't return both a title and an image. Please try again.''"
  have s: "structuredJson w roadmap_png = ([], Some (Inr DEMO_roadmap))"
    if "DEMO_DATA w = DEMO_DATA fair_world" for w :: world
    by (rule demo_structuredJson) (simp add: that fair_world_def roadmap_png_def)
  have t: "title_and_image te (response_with [image_part]) = Inl (Error ?m)"
    "title_and_image te (response_with []) = Inl (Error ?m)" for te
    by (simp_all add: title_and_image_def response_with_def response_parts_def)
  have "generate untitled_world uploaded roadmap_png =
          ([GenerateContent ''gemini-2.5-flash-image-preview''
              [\<lparr>part_text = Some (finalPrompt untitled_world (stylePreset uploaded) DEMO_roadmap),
                inlineData = None\<rparr>]], Some (Inl (Error ?m)))"
    by (subst generate_reaches [OF s])
       (simp_all add: untitled_world_def fair_world_def Promise_race_def GENERATION_TIMEOUT_MS_def t)
  from generate_thrown [OF _ this]
  have u: "error (after (handleGenerateVariants untitled_world uploaded) uploaded) = Some ?m"
    by (simp add: uploaded_eq after_def apply_updates_def)
  have "generate empty_world uploaded roadmap_png =
          ([GenerateContent ''gemini-2.5-flash-image-preview''
              [\<lparr>part_text = Some (finalPrompt empty_world (stylePreset uploaded) DEMO_roadmap),
                inlineData = None\<rparr>]], Some (Inl (Error ?m)))"
    by (subst generate_reaches [OF s])
       (simp_all add: empty_world_def fair_world_def Promise_race_def GENERATION_TIMEOUT_MS_def t)
  from generate_thrown [OF _ this]
  have e: "error (after (handleGenerateVariants empty_world uploaded) uploaded) = Some ?m"
    by (simp add: uploaded_eq after_def apply_updates_def)
  have "lacks_title (response_with [image_part])" "\<not> lacks_image (response_with [image_part])"
    "lacks_title (response_with [])" "lacks_image (response_with [])"
    by (simp_all add: lacks_title_def lacks_image_def parts_of_def response_with_def
        response_parts_def image_part_def has_text_def has_inlineData_def)
  with u e show ?thesis by simp
qed

subsection \<open>The text of the prompt\<close>

lemma master_pieces:
  "MASTER_RECONSTRUCT_PROMPT =
     PROMPT_UNTIL_STYLE @ ''{{stylePreset}}'' @ PROMPT_UNTIL_DATA @ ''{{jsonData}}'' @ PROMPT_AFTER_DATA"
  by (simp add: MASTER_RECONSTRUCT_PROMPT_def PROMPT_UNTIL_STYLE_def PROMPT_UNTIL_DATA_def
      PROMPT_AFTER_DATA_def)

lemma no_brace_until_style: "CHR ''{'' \<notin> set PROMPT_UNTIL_STYLE"
  by (simp add: PROMPT_UNTIL_STYLE_def)

lemma no_brace_until_data: "CHR ''{'' \<notin> set PROMPT_UNTIL_DATA"
  by (simp add: PROMPT_UNTIL_DATA_def)

lemma no_brace_preset: "CHR ''{'' \<notin> set (preset_string p)"
  by (cases p) simp_all

lemma no_dollar_preset: "CHR ''$'' \<notin> set (preset_string p)"
  by (cases p) simp_all

lemma split_first_fresh:
  assumes "c \<notin> set a"
  shows "split_first (c # p) (a @ (c # p) @ b) = Some (a, b)"
  using assms
proof (induction a)
  case Nil
  show ?case by simp
next
  case (Cons x a)
  then have "x \<noteq> c" and "c \<notin> set a" by auto
  with Cons.IH show ?case by simp
qed

lemma getSubstitution_plain:
  assumes "CHR ''$'' \<notin> set r"
  shows "getSubstitution m p f r = r"
  using assms by (induction m p f r rule: getSubstitution.induct) auto

lemma replace_fresh:
  assumes "c \<notin> set a"
  shows "replace (a @ (c # p) @ b) (c # p) r = a @ getSubstitution (c # p) a b r @ b"
  using split_first_fresh [OF assms, of p b] by (simp add: replace_def)

lemma finalPrompt_pieces:
  "finalPrompt w preset structured =
     (PROMPT_UNTIL_STYLE @ preset_string preset @ PROMPT_UNTIL_DATA) @
     getSubstitution ''{{jsonData}}'' (PROMPT_UNTIL_STYLE @ preset_string preset @ PROMPT_UNTIL_DATA)
       PROMPT_AFTER_DATA (JSON_stringify w structured) @
     PROMPT_AFTER_DATA"
proof -
  let ?a = "PROMPT_UNTIL_STYLE" and ?b = "PROMPT_UNTIL_DATA" and ?c = "PROMPT_AFTER_DATA"
  let ?p = "preset_string preset"
  have "replace MASTER_RECONSTRUCT_PROMPT ''{{stylePreset}}'' ?p =
          ?a @ getSubstitution ''{{stylePreset}}'' ?a (?b @ ''{{jsonData}}'' @ ?c) ?p @ ?b @ ''{{jsonData}}'' @ ?c"
    unfolding master_pieces
    using replace_fresh [OF no_brace_until_style, of "''{stylePreset}}''" "?b @ ''{{jsonData}}'' @ ?c" ?p]
    by simp
  also have "\<dots> = (?a @ ?p @ ?b) @ ''{{jsonData}}'' @ ?c"
    by (simp add: getSubstitution_plain [OF no_dollar_preset])
  finally have 1: "replace MASTER_RECONSTRUCT_PROMPT ''{{stylePreset}}'' ?p = (?a @ ?p @ ?b) @ ''{{jsonData}}'' @ ?c" .
  have "CHR ''{'' \<notin> set (?a @ ?p @ ?b)"
    using no_brace_until_style no_brace_until_data no_brace_preset by simp
  from replace_fresh [OF this, of "''{jsonData}}''" ?c "JSON_stringify w structured"]
  show ?thesis unfolding finalPrompt_def 1 by simp
qed

lemma finalPrompt_verbatim:
  assumes "CHR ''$'' \<notin> set (JSON_stringify w structured)"
  shows "finalPrompt w preset structured =
     PROMPT_UNTIL_STYLE @ preset_string preset @ PROMPT_UNTIL_DATA @
     JSON_stringify w structured @ PROMPT_AFTER_DATA"
  by (simp add: finalPrompt_pieces getSubstitution_plain [OF assms])


lemma roadmap_text: "JSON_text DEMO_roadmap = roadmap_json"
  by code_simp

lemma survey_text: "JSON_text DEMO_survey = survey_json"
  by code_simp

lemma empty_object_text: "JSON_text (JObj []) = ''{}''"
  by code_simp

lemma no_dollar_roadmap: "CHR ''$'' \<notin> set roadmap_json"
  by code_simp

lemma no_dollar_survey: "CHR ''$'' \<notin> set survey_json"
  by code_simp

text \<open>
  The two entries of the table that the source lists in full have no dollar sign in their
  JSON text, so the prompt holds that text character for character.
\<close>

lemma listed_fixture_prompts:
  "finalPrompt fair_world preset DEMO_roadmap =
     PROMPT_UNTIL_STYLE @ preset_string preset @ PROMPT_UNTIL_DATA @ roadmap_json @ PROMPT_AFTER_DATA"
  "finalPrompt fair_world preset DEMO_survey =
     PROMPT_UNTIL_STYLE @ preset_string preset @ PROMPT_UNTIL_DATA @ survey_json @ PROMPT_AFTER_DATA"
proof -
  have r: "JSON_stringify fair_world DEMO_roadmap = roadmap_json"
    by (simp add: fair_world_def roadmap_text)
  have s: "JSON_stringify fair_world DEMO_survey = survey_json"
    by (simp add: fair_world_def survey_text)
  have "CHR ''$'' \<notin> set (JSON_stringify fair_world DEMO_roadmap)"
    unfolding r by (rule no_dollar_roadmap)
  from finalPrompt_verbatim [OF this, of preset]
  show "finalPrompt fair_world preset DEMO_roadmap =
     PROMPT_UNTIL_STYLE @ preset_string preset @ PROMPT_UNTIL_DATA @ roadmap_json @ PROMPT_AFTER_DATA"
    by (simp only: r)
  have "CHR ''$'' \<notin> set (JSON_stringify fair_world DEMO_survey)"
    unfolding s by (rule no_dollar_survey)
  from finalPrompt_verbatim [OF this, of preset]
  show "finalPrompt fair_world preset DEMO_survey =
     PROMPT_UNTIL_STYLE @ preset_string preset @ PROMPT_UNTIL_DATA @ survey_json @ PROMPT_AFTER_DATA"
    by (simp only: s)
qed

subsection \<open>The fixture shortcut\<close>

lemma generate_calls:
  "fst (generate w s f) =
     fst (structuredJson w f) @
     (case (snd (structuredJson w f), new_GoogleGenAI w) of
        (Some (Inr structured), None) \<Rightarrow>
          [GenerateContent ''gemini-2.5-flash-image-preview''
             [\<lparr>part_text = Some (finalPrompt w (stylePreset s) structured), inlineData = None\<rparr>]]
      | _ \<Rightarrow> [])"
  by (cases "structuredJson w f")
     (auto simp: generate_def split: option.splits sum.splits)

lemma handleGenerateVariants_calls:
  assumes "originalImage s = Some f"
  shows "calls (handleGenerateVariants w s) = fst (generate w s f)"
  using assms
  by (cases "generate w s f")
     (auto simp: handleGenerateVariants_def split: option.splits sum.splits)

lemma runOcrOnImage_calls:
  "fst (runOcrOnImage w f) =
     (case new_GoogleGenAI w of
        Some e \<Rightarrow> []
      | None \<Rightarrow>
          (case fileToBase64 w f of
             Inl e \<Rightarrow> []
           | Inr base64 \<Rightarrow> [GenerateContent ''gemini-2.5-flash'' (ocr_request f base64)]))"
  by (simp add: runOcrOnImage_def split: option.splits sum.splits)

lemma ocr_structuredJson:
  assumes "\<not> isDemoFile w f"
  shows "fst (structuredJson w f) = RunOcrOnImage f # fst (runOcrOnImage w f)"
  using assms
  by (cases "runOcrOnImage w f") (auto simp: structuredJson_def split: option.splits)

lemma generator_request_no_extraction:
  "filter extraction_call
     (case x of
        (Some (Inr structured), None) \<Rightarrow>
          [GenerateContent ''gemini-2.5-flash-image-preview''
             [\<lparr>part_text = Some (finalPrompt w preset structured), inlineData = None\<rparr>]]
      | _ \<Rightarrow> []) = []"
  by (auto split: prod.splits option.splits sum.splits)

text \<open>
  C3. For a chosen file whose name is a key of \<open>DEMO_DATA\<close>, a generation run makes no
  call of the extraction. Its one request to the generator (made when the client can be
  constructed) carries the prompt with the style filled in and, in the place of the data
  marker, the JSON text of the entry of the table under that name, character for
  character; only when that text has a dollar sign does \<open>replace\<close> read it as a pattern.
  For a file of any other name the run begins with a run of \<open>runOcrOnImage\<close> on that file,
  which sends the request of the extraction with the file's data whenever the client can be
  constructed and the file can be read; no other call of the run belongs to the
  extraction.
\<close>

theorem fixture_skips_extraction:
  assumes "originalImage s = Some f"
  shows "if isDemoFile w f
         then \<exists>fixture.
                map_of (DEMO_DATA w) (file_name f) = Some fixture \<and>
                filter extraction_call (calls (handleGenerateVariants w s)) = [] \<and>
                calls (handleGenerateVariants w s) =
                  (case new_GoogleGenAI w of
                     None \<Rightarrow>
                       [GenerateContent ''gemini-2.5-flash-image-preview''
                          [\<lparr>part_text = Some
                              (PROMPT_UNTIL_STYLE @ preset_string (stylePreset s) @ PROMPT_UNTIL_DATA @
                               (if CHR ''$'' \<in> set (JSON_stringify w fixture)
                                then getSubstitution ''{{jsonData}}''
                                       (PROMPT_UNTIL_STYLE @ preset_string (stylePreset s) @ PROMPT_UNTIL_DATA)
                                       PROMPT_AFTER_DATA (JSON_stringify w fixture)
                                else JSON_stringify w fixture) @
                               PROMPT_AFTER_DATA),
                            inlineData = None\<rparr>]]
                   | Some e \<Rightarrow> [])
         else \<exists>rest.
                filter extraction_call rest = [] \<and>
                calls (handleGenerateVariants w s) =
                  RunOcrOnImage f #
                  (case new_GoogleGenAI w of
                     Some e \<Rightarrow> []
                   | None \<Rightarrow>
                       (case fileToBase64 w f of
                          Inl e \<Rightarrow> []
                        | Inr base64 \<Rightarrow> [GenerateContent ''gemini-2.5-flash'' (ocr_request f base64)])) @
                  rest"
proof (cases "isDemoFile w f")
  case True
  then have "file_name f \<in> fst ` set (DEMO_DATA w)"
    by (simp add: isDemoFile_def Object_keys_def)
  then have "map_of (DEMO_DATA w) (file_name f) \<noteq> None"
    by (simp only: map_of_eq_None_iff not_not)
  then obtain fixture where m: "map_of (DEMO_DATA w) (file_name f) = Some fixture"
    by blast
  let ?head = "PROMPT_UNTIL_STYLE @ preset_string (stylePreset s) @ PROMPT_UNTIL_DATA"
  let ?json = "JSON_stringify w fixture"
  have p: "finalPrompt w (stylePreset s) fixture =
      PROMPT_UNTIL_STYLE @ preset_string (stylePreset s) @ PROMPT_UNTIL_DATA @
      (if CHR ''$'' \<in> set ?json
       then getSubstitution ''{{jsonData}}'' ?head PROMPT_AFTER_DATA ?json else ?json) @
      PROMPT_AFTER_DATA"
    by (simp add: finalPrompt_pieces getSubstitution_plain)
  from demo_structuredJson [OF m] have "structuredJson w f = ([], Some (Inr fixture))" .
  then have c: "calls (handleGenerateVariants w s) =
      (case new_GoogleGenAI w of
         None \<Rightarrow>
           [GenerateContent ''gemini-2.5-flash-image-preview''
              [\<lparr>part_text = Some (finalPrompt w (stylePreset s) fixture), inlineData = None\<rparr>]]
       | Some e \<Rightarrow> [])"
    by (simp add: handleGenerateVariants_calls [OF assms] generate_calls split: option.splits)
  then have "filter extraction_call (calls (handleGenerateVariants w s)) = []"
    by (simp split: option.splits)
  with True m c [unfolded p] show ?thesis by auto
next
  case False
  let ?rest = "case (snd (structuredJson w f), new_GoogleGenAI w) of
        (Some (Inr structured), None) \<Rightarrow>
          [GenerateContent ''gemini-2.5-flash-image-preview''
             [\<lparr>part_text = Some (finalPrompt w (stylePreset s) structured), inlineData = None\<rparr>]]
      | _ \<Rightarrow> []"
  have "calls (handleGenerateVariants w s) = fst (structuredJson w f) @ ?rest"
    by (simp only: handleGenerateVariants_calls [OF assms] generate_calls)
  then have "calls (handleGenerateVariants w s) =
      RunOcrOnImage f #
      (case new_GoogleGenAI w of
         Some e \<Rightarrow> []
       | None \<Rightarrow>
           (case fileToBase64 w f of
              Inl e \<Rightarrow> []
            | Inr base64 \<Rightarrow> [GenerateContent ''gemini-2.5-flash'' (ocr_request f base64)])) @ ?rest"
    by (simp only: ocr_structuredJson [OF False] runOcrOnImage_calls append_Cons)
  moreover have "filter extraction_call ?rest = []"
    by (rule generator_request_no_extraction)
  ultimately have "\<exists>rest. filter extraction_call rest = [] \<and>
      calls (handleGenerateVariants w s) =
      RunOcrOnImage f #
      (case new_GoogleGenAI w of
         Some e \<Rightarrow> []
       | None \<Rightarrow>
           (case fileToBase64 w f of
              Inl e \<Rightarrow> []
            | Inr base64 \<Rightarrow> [GenerateContent ''gemini-2.5-flash'' (ocr_request f base64)])) @ rest"
    by blast
  with False show ?thesis by simp
qed

text \<open>
  With \<open>roadmap.png\<close> chosen, the run makes one call, the request to the generator, whose
  prompt holds the JSON text of the roadmap fixture between the two parts of the template.
  With \<open>slide.png\<close> chosen, which is no key of the table, the run begins with
  \<open>runOcrOnImage\<close> and the request of the extraction for that file.
\<close>

theorem fixture_skips_extraction_witness:
  "isDemoFile fair_world roadmap_png \<and>
   calls (handleGenerateVariants fair_world uploaded) =
     [GenerateContent ''gemini-2.5-flash-image-preview''
        [\<lparr>part_text = Some (PROMPT_UNTIL_STYLE @ ''Workshop'' @ PROMPT_UNTIL_DATA @ roadmap_json @
                             PROMPT_AFTER_DATA),
          inlineData = None\<rparr>]] \<and>
   \<not> isDemoFile fair_world slide_png \<and>
   take 2 (calls (handleGenerateVariants fair_world (uploaded\<lparr>originalImage := Some slide_png\<rparr>))) =
     [RunOcrOnImage slide_png,
      GenerateContent ''gemini-2.5-flash'' (ocr_request slide_png ''iVBORw0KGgo='')]"
proof -
  have 1: "originalImage uploaded = Some roadmap_png" by (simp add: uploaded_eq)
  have 2: "isDemoFile fair_world roadmap_png"
    by (simp add: isDemoFile_def Object_keys_def fair_world_def roadmap_png_def)
  have 3: "map_of (DEMO_DATA fair_world) (file_name roadmap_png) = Some DEMO_roadmap"
    by (simp add: fair_world_def roadmap_png_def)
  have 4: "new_GoogleGenAI fair_world = None" by (simp add: fair_world_def)
  have 5: "stylePreset uploaded = Workshop" by (simp add: uploaded_eq initial_def)
  have 6: "JSON_stringify fair_world DEMO_roadmap = roadmap_json"
    by (simp add: fair_world_def roadmap_text)
  from fixture_skips_extraction [OF 1, of fair_world] 2 3 4 5 6 no_dollar_roadmap
  have a: "calls (handleGenerateVariants fair_world uploaded) =
     [GenerateContent ''gemini-2.5-flash-image-preview''
        [\<lparr>part_text = Some (PROMPT_UNTIL_STYLE @ ''Workshop'' @ PROMPT_UNTIL_DATA @ roadmap_json @
                             PROMPT_AFTER_DATA),
          inlineData = None\<rparr>]]"
    by simp
  have 7: "\<not> isDemoFile fair_world slide_png"
    by (simp add: isDemoFile_def Object_keys_def fair_world_def slide_png_def)
  have 8: "originalImage (uploaded\<lparr>originalImage := Some slide_png\<rparr>) = Some slide_png" by simp
  have 9: "fileToBase64 fair_world slide_png = Inr ''iVBORw0KGgo=''" by (simp add: fair_world_def)
  from fixture_skips_extraction [OF 8, of fair_world] 7 4 9
  have b: "take 2 (calls (handleGenerateVariants fair_world (uploaded\<lparr>originalImage := Some slide_png\<rparr>))) =
     [RunOcrOnImage slide_png,
      GenerateContent ''gemini-2.5-flash'' (ocr_request slide_png ''iVBORw0KGgo='')]"
    by auto
  from 2 a 7 b show ?thesis by blast
qed

end
